theory Spec2Isabelle
  imports Complex_Main "HOL-Library.Multiset" "HOL-Library.Word"
begin

section \<open>Values of the C++ program\<close>

text \<open>
  A C++ \<open>double\<close>: a finite value, one of the two infinities, or NaN.  Finite values
  are carried by a real number, and the sign of zero is not kept.  The comparison
  operators follow IEEE 754: every comparison with NaN is false, and \<open>!=\<close> is the
  negation of \<open>==\<close>.  The results of the two arithmetic operations of the
  modelled code, an addition and a division, are rounded to the nearest binary64 value,
  ties to even, and overflow to an infinity.
\<close>

datatype double = Fin real | PInf | NInf | NaN

fun isnan :: "double \<Rightarrow> bool" where
  "isnan NaN = True"
| "isnan _ = False"

fun dless :: "double \<Rightarrow> double \<Rightarrow> bool" where
  "dless NaN _ = False"
| "dless _ NaN = False"
| "dless (Fin a) (Fin b) = (a < b)"
| "dless (Fin a) PInf = True"
| "dless (Fin a) NInf = False"
| "dless PInf _ = False"
| "dless NInf NInf = False"
| "dless NInf _ = True"

fun deq :: "double \<Rightarrow> double \<Rightarrow> bool" where
  "deq NaN _ = False"
| "deq _ NaN = False"
| "deq (Fin a) (Fin b) = (a = b)"
| "deq PInf PInf = True"
| "deq NInf NInf = True"
| "deq _ _ = False"

definition dgreater :: "double \<Rightarrow> double \<Rightarrow> bool" where
  "dgreater a b = dless b a"

definition dneq :: "double \<Rightarrow> double \<Rightarrow> bool" where
  "dneq a b = (\<not> deq a b)"

text \<open>
  Rounding to binary64.  \<open>binade x\<close> is the exponent \<open>e\<close> with
  \<open>2 ^ e \<le> \<bar>x\<bar> < 2 ^ (e + 1)\<close>, and \<open>-1022\<close> below the smallest normal value;
  the values of a binade are the multiples of \<open>2 ^ (e - 52)\<close>.  \<open>roundEven\<close> rounds
  to the nearest integer, a tie to the even one.  A magnitude of at least
  \<open>2 ^ 1024 - 2 ^ 970\<close>, half a step above the largest finite value, rounds to an
  infinity.
\<close>

fun find_exp :: "real \<Rightarrow> nat \<Rightarrow> int" where
  "find_exp x 0 = - 1022"
| "find_exp x (Suc n) =
     (if 2 powi (int (Suc n) - 1022) \<le> x then int (Suc n) - 1022 else find_exp x n)"

definition binade :: "real \<Rightarrow> int" where
  "binade x = find_exp \<bar>x\<bar> 2045"

definition roundEven :: "real \<Rightarrow> int" where
  "roundEven q =
     (let f = \<lfloor>q\<rfloor>; d = q - of_int f in
      if d < 1 / 2 then f
      else if 1 / 2 < d then f + 1
      else if even f then f else f + 1)"

definition roundToDouble :: "real \<Rightarrow> double" where
  "roundToDouble x =
     (if 2 ^ 1024 - 2 ^ 970 \<le> \<bar>x\<bar> then (if 0 < x then PInf else NInf)
      else (let ulp = 2 powi (binade x - 52) in Fin (of_int (roundEven (x / ulp)) * ulp)))"

text \<open>The operator \<open>+\<close> on two doubles.\<close>

fun dadd :: "double \<Rightarrow> double \<Rightarrow> double" where
  "dadd NaN _ = NaN"
| "dadd _ NaN = NaN"
| "dadd (Fin a) (Fin b) = roundToDouble (a + b)"
| "dadd PInf NInf = NaN"
| "dadd NInf PInf = NaN"
| "dadd PInf _ = PInf"
| "dadd _ PInf = PInf"
| "dadd NInf _ = NInf"
| "dadd _ NInf = NInf"

text \<open>The operator \<open>/\<close> with a finite, positive constant as divisor (the only
  division the modelled code does).\<close>

fun ddiv_pos :: "double \<Rightarrow> real \<Rightarrow> double" where
  "ddiv_pos (Fin a) c = roundToDouble (a / c)"
| "ddiv_pos x c = x"

text \<open>\<open>std::numeric_limits<double>::max()\<close>.\<close>

definition DBL_MAX :: real where
  "DBL_MAX = (2 - 1 / 2 ^ 52) * 2 ^ 1023"

text \<open>\<open>size_t\<close> is 64 bits wide; sizes and counts are natural numbers, and the one
  product of sizes that the program tests against zero is reduced modulo \<open>2 ^ 64\<close>.\<close>

definition SIZE_MOD :: nat where
  "SIZE_MOD = 2 ^ 64"

section \<open>The training data interface\<close>

text \<open>
  The class \<open>DataFrame\<close> is used through its accessors only; the record holds what each
  accessor returns.  \<open>getPoint td i j\<close> is the value of feature \<open>j\<close> at observation \<open>i\<close>,
  \<open>partitionMean td is\<close> the mean outcome over the indices \<open>is\<close>.
\<close>

record DataFrame =
  getPoint :: "nat \<Rightarrow> nat \<Rightarrow> double"
  getOutcomePoint :: "nat \<Rightarrow> double"
  getLinObsData :: "nat \<Rightarrow> double list"
  partitionMean :: "nat list \<Rightarrow> double"
  getNumColumns :: nat
  getNumRows :: nat
  getCatCols :: "nat list"
  getNumCols :: "nat list"
  getfeatureWeights :: "double list"
  getfeatureWeightsVariables :: "nat list"
  getdeepFeatureWeights :: "double list"
  getdeepFeatureWeightsVariables :: "nat list"
  getMonotonicConstraints :: "int list"
  getMonotoneAvg :: bool

section \<open>Partitioning the index sets at a split\<close>

text \<open>
  The scan of \<open>splitDataIntoTwoParts\<close> when the tree has missing values: an index whose
  feature value is NaN is set aside, every other index is appended to the left or to the
  right partition.
\<close>

fun scanWithNas ::
  "DataFrame \<Rightarrow> nat \<Rightarrow> double \<Rightarrow> bool \<Rightarrow> nat list \<Rightarrow>
   nat list \<Rightarrow> nat list \<Rightarrow> nat list \<Rightarrow> nat list \<times> nat list \<times> nat list" where
  "scanWithNas td splitFeature splitValue categoical [] left right naIndices =
     (left, right, naIndices)"
| "scanWithNas td splitFeature splitValue categoical (it # rest) left right naIndices =
     (let currentFeatureValue = getPoint td it splitFeature in
      if categoical then
        (if isnan currentFeatureValue then
           scanWithNas td splitFeature splitValue categoical rest left right (naIndices @ [it])
         else if deq currentFeatureValue splitValue then
           scanWithNas td splitFeature splitValue categoical rest (left @ [it]) right naIndices
         else
           scanWithNas td splitFeature splitValue categoical rest left (right @ [it]) naIndices)
      else
        (if isnan currentFeatureValue then
           scanWithNas td splitFeature splitValue categoical rest left right (naIndices @ [it])
         else if dless currentFeatureValue splitValue then
           scanWithNas td splitFeature splitValue categoical rest (left @ [it]) right naIndices
         else
           scanWithNas td splitFeature splitValue categoical rest left (right @ [it]) naIndices))"

text \<open>Sending the indices set aside to one side, counting each.\<close>

fun sendNas :: "nat list \<Rightarrow> nat list \<Rightarrow> nat \<Rightarrow> nat list \<times> nat" where
  "sendNas [] part naCount = (part, naCount)"
| "sendNas (index # rest) part naCount = sendNas rest (part @ [index]) (naCount + 1)"

text \<open>The scan when the tree has no missing values.\<close>

fun scanNoNas ::
  "DataFrame \<Rightarrow> nat \<Rightarrow> double \<Rightarrow> bool \<Rightarrow> nat list \<Rightarrow>
   nat list \<Rightarrow> nat list \<Rightarrow> nat list \<times> nat list" where
  "scanNoNas td splitFeature splitValue categoical [] left right = (left, right)"
| "scanNoNas td splitFeature splitValue categoical (it # rest) left right =
     (if categoical then
        (if deq (getPoint td it splitFeature) splitValue then
           scanNoNas td splitFeature splitValue categoical rest (left @ [it]) right
         else
           scanNoNas td splitFeature splitValue categoical rest left (right @ [it]))
      else
        (let tmpFeatureValue = getPoint td it splitFeature in
         if dless tmpFeatureValue splitValue then
           scanNoNas td splitFeature splitValue categoical rest (left @ [it]) right
         else
           scanNoNas td splitFeature splitValue categoical rest left (right @ [it])))"

text \<open>
  \<open>splitDataIntoTwoParts\<close>: the two partitions and the two NA counters are passed by
  reference in the source; the model takes their values at entry and returns their values
  at exit, in the order left, right, naLeftCount, naRightCount.
\<close>

definition splitDataIntoTwoParts ::
  "DataFrame \<Rightarrow> nat list \<Rightarrow> nat \<Rightarrow> double \<Rightarrow> int \<Rightarrow> nat list \<Rightarrow> nat list \<Rightarrow>
   bool \<Rightarrow> bool \<Rightarrow> nat \<Rightarrow> nat \<Rightarrow> nat list \<times> nat list \<times> nat \<times> nat" where
  "splitDataIntoTwoParts td sampleIndex splitFeature splitValue naBestDirection
     leftPartitionIndex rightPartitionIndex categoical hasNas naLeftCount naRightCount =
     (if hasNas then
        (case scanWithNas td splitFeature splitValue categoical sampleIndex
                leftPartitionIndex rightPartitionIndex [] of
           (left, right, naIndices) \<Rightarrow>
             if naBestDirection = - 1 then
               (case sendNas naIndices left naLeftCount of
                  (left', naLeftCount') \<Rightarrow> (left', right, naLeftCount', naRightCount))
             else if naBestDirection = 1 then
               (case sendNas naIndices right naRightCount of
                  (right', naRightCount') \<Rightarrow> (left, right', naLeftCount, naRightCount'))
             else (left, right, naLeftCount, naRightCount))
      else
        (case scanNoNas td splitFeature splitValue categoical sampleIndex
                leftPartitionIndex rightPartitionIndex of
           (left, right) \<Rightarrow> (left, right, naLeftCount, naRightCount)))"

text \<open>
  \<open>splitData\<close>: the averaging set is partitioned with two local counters that are
  dropped, the splitting set with the caller's counters.  The result is the four
  partitions (averaging left, averaging right, splitting left, splitting right) and the
  caller's two counters.
\<close>

definition splitData ::
  "DataFrame \<Rightarrow> nat list \<Rightarrow> nat list \<Rightarrow> nat \<Rightarrow> double \<Rightarrow> int \<Rightarrow>
   nat list \<Rightarrow> nat list \<Rightarrow> nat list \<Rightarrow> nat list \<Rightarrow> nat \<Rightarrow> nat \<Rightarrow> bool \<Rightarrow> bool \<Rightarrow>
   nat list \<times> nat list \<times> nat list \<times> nat list \<times> nat \<times> nat" where
  "splitData td averagingSampleIndex splittingSampleIndex splitFeature splitValue
     naBestDirection averagingLeftPartitionIndex averagingRightPartitionIndex
     splittingLeftPartitionIndex splittingRightPartitionIndex naLeftCount naRightCount
     categoical hasNas =
     (case splitDataIntoTwoParts td averagingSampleIndex splitFeature splitValue
             naBestDirection averagingLeftPartitionIndex averagingRightPartitionIndex
             categoical hasNas 0 0 of
        (avgLeft, avgRight, avgL, avgR) \<Rightarrow>
          (case splitDataIntoTwoParts td splittingSampleIndex splitFeature splitValue
                  naBestDirection splittingLeftPartitionIndex splittingRightPartitionIndex
                  categoical hasNas naLeftCount naRightCount of
             (sptLeft, sptRight, naLeftCount', naRightCount') \<Rightarrow>
               (avgLeft, avgRight, sptLeft, sptRight, naLeftCount', naRightCount')))"

section \<open>Monotone bounds\<close>

text \<open>The struct \<open>monotonic_info\<close> handed down the recursion.\<close>

record monotonic_info =
  monotonic_constraints :: "int list"
  upper_bound :: double
  lower_bound :: double
  monotoneAvg :: bool

text \<open>
  Modelled from the spec: \<open>calculateMonotonicBound\<close> is declared in \<open>utils.h\<close> and its
  body is not among the sources; the specification says that the mean is "projected
  through the parent bounds", so the model clamps the mean between the lower and the upper
  bound of the record.  Only the worked examples below unfold this definition.
\<close>

definition calculateMonotonicBound :: "double \<Rightarrow> monotonic_info \<Rightarrow> double" where
  "calculateMonotonicBound node_mean monotone_details =
     (if dless node_mean (lower_bound monotone_details) then lower_bound monotone_details
      else if dgreater node_mean (upper_bound monotone_details) then upper_bound monotone_details
      else node_mean)"

text \<open>
  \<open>updateMonotoneConstraints\<close> writes the two child records, passed by reference; the
  model takes their contents at entry and returns them updated.  Reading the constraint of
  a feature beyond the end of the parent's vector is undefined in the source: the model
  returns \<open>None\<close>.
\<close>

definition updateMonotoneConstraints ::
  "monotonic_info \<Rightarrow> monotonic_info \<Rightarrow> monotonic_info \<Rightarrow> int list \<Rightarrow> double \<Rightarrow> double \<Rightarrow>
   nat \<Rightarrow> (monotonic_info \<times> monotonic_info) option" where
  "updateMonotoneConstraints monotone_details monotonic_details_left monotonic_details_right
     constraints leftMean rightMean bestSplitFeature =
     (if bestSplitFeature < length (monotonic_constraints monotone_details) then
        (let monotone_direction = monotonic_constraints monotone_details ! bestSplitFeature;
             l1 = monotonic_details_left
                    \<lparr> monotonic_constraints := constraints,
                      monotoneAvg := monotoneAvg monotone_details \<rparr>;
             r1 = monotonic_details_right
                    \<lparr> monotonic_constraints := constraints,
                      monotoneAvg := monotoneAvg monotone_details \<rparr>;
             leftNodeMean = calculateMonotonicBound leftMean monotone_details;
             rightNodeMean = calculateMonotonicBound rightMean monotone_details;
             midMean = ddiv_pos (dadd leftNodeMean rightNodeMean) 2
         in
           if monotone_direction = - 1 then
             Some (l1 \<lparr> lower_bound := midMean, upper_bound := upper_bound monotone_details \<rparr>,
                   r1 \<lparr> upper_bound := midMean, lower_bound := lower_bound monotone_details \<rparr>)
           else if monotone_direction = 1 then
             Some (l1 \<lparr> upper_bound := midMean, lower_bound := lower_bound monotone_details \<rparr>,
                   r1 \<lparr> lower_bound := midMean, upper_bound := upper_bound monotone_details \<rparr>)
           else
             Some (l1 \<lparr> upper_bound := upper_bound monotone_details,
                        lower_bound := lower_bound monotone_details \<rparr>,
                   r1 \<lparr> upper_bound := upper_bound monotone_details,
                        lower_bound := lower_bound monotone_details \<rparr>))
      else None)"

section \<open>Nodes and trees\<close>

text \<open>
  A node is fresh (\<open>new RFNode()\<close>), a leaf (\<open>setLeafNode\<close> with the two counts, the id
  and the weight, then possibly \<open>setRidgeCoefficients\<close>), or a split (\<open>setSplitNode\<close>
  with the feature, the value, the two children, the two NA counts and the default NA
  direction).  \<open>setSplitNode\<close> is given no node id.  The arguments of \<open>LeafNode\<close> are
  the averaging count, the splitting count, the node id, the weight and the ridge
  coefficients; those of \<open>SplitNode\<close> are the split feature, the split value, the left
  child, the right child, the NA count sent left, the NA count sent right and the default
  NA direction.
\<close>

datatype RFNode =
    FreshNode
  | LeafNode nat nat nat double "double list option"
  | SplitNode nat double RFNode RFNode nat nat int

text \<open>The members of \<open>forestryTree\<close>, each named by its accessor.\<close>

record forestryTree =
  getMtry :: nat
  getMinNodeSizeSpt :: nat
  getMinNodeSizeAvg :: nat
  getMinNodeSizeToSplitSpt :: nat
  getMinNodeSizeToSplitAvg :: nat
  getMinSplitGain :: double
  getMaxDepth :: nat
  getInteractionDepth :: nat
  getAveragingIndex :: "nat list"
  getSplittingIndex :: "nat list"
  getRoot :: RFNode
  getNodeCount :: nat
  gethasNas :: bool
  getNaDirection :: bool
  getLinear :: bool
  getOverfitPenalty :: double
  getSeed :: nat

text \<open>
  Modelled from the spec: \<open>assignNodeId\<close> is declared in \<open>forestryTree.h\<close>, which is not
  among the sources.  The specification says that node ids come from a monotonically
  increasing counter owned by the tree and start at 1: the counter is incremented and its
  new value is the id.  The model takes the counter and returns the id and the counter.
\<close>

definition assignNodeId :: "nat \<Rightarrow> nat \<times> nat" where
  "assignNodeId nodeCount = (nodeCount + 1, nodeCount + 1)"

section \<open>Out-of-bag indices\<close>

text \<open>
  \<open>std::set_union\<close> and \<open>std::set_difference\<close> on two ranges, as the C++ standard
  gives them: one pass over both ranges, comparing the two front elements.
\<close>

fun set_union :: "nat list \<Rightarrow> nat list \<Rightarrow> nat list" where
  "set_union [] ys = ys"
| "set_union (x # xs) [] = x # xs"
| "set_union (x # xs) (y # ys) =
     (if y < x then y # set_union (x # xs) ys
      else if \<not> x < y then x # set_union xs ys
      else x # set_union xs (y # ys))"

fun set_difference :: "nat list \<Rightarrow> nat list \<Rightarrow> nat list" where
  "set_difference [] ys = []"
| "set_difference (x # xs) [] = x # xs"
| "set_difference (x # xs) (y # ys) =
     (if x < y then x # set_difference xs (y # ys)
      else if \<not> y < x then set_difference xs ys
      else set_difference (x # xs) ys)"

text \<open>The loop that appends the indices found to the caller's output vector.\<close>

fun push_all :: "nat list \<Rightarrow> nat list \<Rightarrow> nat list" where
  "push_all [] output = output"
| "push_all (i # rest) output = push_all rest (output @ [i])"

text \<open>
  The four index computations.  Each sorts vectors in place: the model returns the tree,
  the caller's \<open>allIndex\<close> and the caller's output vector as they are at exit.
\<close>

definition getOOBindex ::
  "forestryTree \<Rightarrow> nat list \<Rightarrow> nat list \<Rightarrow> forestryTree \<times> nat list \<times> nat list" where
  "getOOBindex t outputOOBIndex allIndex =
     (let t1 = t \<lparr> getSplittingIndex := sort (getSplittingIndex t) \<rparr>;
          t2 = t1 \<lparr> getAveragingIndex := sort (getAveragingIndex t1) \<rparr>;
          allIndex' = sort allIndex;
          allSampledIndex = set_union (getSplittingIndex t2) (getAveragingIndex t2);
          OOBIndex = set_difference allIndex' allSampledIndex
      in (t2, allIndex', push_all OOBIndex outputOOBIndex))"

definition getDoubleOOBIndex ::
  "forestryTree \<Rightarrow> nat list \<Rightarrow> nat list \<Rightarrow> forestryTree \<times> nat list \<times> nat list" where
  "getDoubleOOBIndex t outputOOBIndex allIndex =
     (let t1 = t \<lparr> getSplittingIndex := sort (getSplittingIndex t) \<rparr>;
          t2 = t1 \<lparr> getAveragingIndex := sort (getAveragingIndex t1) \<rparr>;
          allIndex' = sort allIndex;
          allSampledIndex = set_union (getSplittingIndex t2) (getAveragingIndex t2);
          OOBIndex = set_difference allIndex' allSampledIndex
      in (t2, allIndex', push_all OOBIndex outputOOBIndex))"

definition getOOBhonestIndex ::
  "forestryTree \<Rightarrow> nat list \<Rightarrow> nat list \<Rightarrow> forestryTree \<times> nat list \<times> nat list" where
  "getOOBhonestIndex t outputOOBIndex allIndex =
     (let t1 = t \<lparr> getAveragingIndex := sort (getAveragingIndex t) \<rparr>;
          allIndex' = sort allIndex;
          OOBIndex = set_difference allIndex' (getAveragingIndex t1)
      in (t1, allIndex', push_all OOBIndex outputOOBIndex))"

text \<open>
  \<open>getOOGIndex\<close> reads \<open>groupMemberships\<close> at every sampled index and at every index of
  \<open>allIndex\<close>; a read beyond the end of the vector is undefined in the source, and the
  model returns \<open>None\<close> there.  The \<open>std::set\<close> of groups seen is a set.
\<close>

fun insert_groups :: "nat list \<Rightarrow> nat list \<Rightarrow> nat set \<Rightarrow> nat set option" where
  "insert_groups groupMemberships [] in_sample_groups = Some in_sample_groups"
| "insert_groups groupMemberships (i # rest) in_sample_groups =
     (if i < length groupMemberships then
        insert_groups groupMemberships rest (insert (groupMemberships ! i) in_sample_groups)
      else None)"

fun push_out_of_group :: "nat list \<Rightarrow> nat set \<Rightarrow> nat list \<Rightarrow> nat list \<Rightarrow> nat list option" where
  "push_out_of_group groupMemberships in_sample_groups [] output = Some output"
| "push_out_of_group groupMemberships in_sample_groups (i # rest) output =
     (if i < length groupMemberships then
        (if groupMemberships ! i \<notin> in_sample_groups then
           push_out_of_group groupMemberships in_sample_groups rest (output @ [i])
         else push_out_of_group groupMemberships in_sample_groups rest output)
      else None)"

definition getOOGIndex ::
  "forestryTree \<Rightarrow> nat list \<Rightarrow> nat list \<Rightarrow> nat list \<Rightarrow> bool \<Rightarrow>
   (forestryTree \<times> nat list \<times> nat list) option" where
  "getOOGIndex t outputOOBIndex groupMemberships allIndex doubleOOB =
     (let t1 = t \<lparr> getAveragingIndex := sort (getAveragingIndex t) \<rparr>;
          allIndex' = sort allIndex
      in case insert_groups groupMemberships (getAveragingIndex t1) {} of
           None \<Rightarrow> None
         | Some groups1 \<Rightarrow>
             (case (if doubleOOB then insert_groups groupMemberships (getSplittingIndex t1) groups1
                    else Some groups1) of
                None \<Rightarrow> None
              | Some groups2 \<Rightarrow>
                  (case push_out_of_group groupMemberships groups2 allIndex' outputOOBIndex of
                     None \<Rightarrow> None
                   | Some output \<Rightarrow> Some (t1, allIndex', output))))"

section \<open>Flat records: reconstruction and flattening\<close>

text \<open>
  The flat record of a tree (\<open>tree_info\<close>): the node rows in pre-order, the two sample
  index vectors, 1-based, and the seed.  The entries of the node rows are 32-bit signed
  integers, the sample indices are \<open>size_t\<close>; both are machine words, since the code
  converts between \<open>int\<close> and \<open>size_t\<close> and subtracts one from an unsigned index.
\<close>

type_synonym int32 = "32 word"
type_synonym uint32 = "32 word"
type_synonym size_t = "64 word"

record tree_info =
  ti_var_ids :: "int32 list"
  ti_split_vals :: "double list"
  ti_naLeftCounts :: "int32 list"
  ti_naRightCounts :: "int32 list"
  ti_naDefaultDirections :: "int32 list"
  ti_averagingSampleIndex :: "size_t list"
  ti_splittingSampleIndex :: "size_t list"
  ti_weights :: "double list"
  ti_seed :: uint32

text \<open>The least \<open>int\<close>; \<open>std::abs\<close> of it is undefined.\<close>

definition INT_MIN :: int where
  "INT_MIN = - (2 ^ 31)"

text \<open>Reading the front element of a vector and erasing it; reading an empty vector is
  undefined in the source and \<open>None\<close> here.\<close>

fun pop_front :: "'a list \<Rightarrow> ('a \<times> 'a list) option" where
  "pop_front [] = None"
| "pop_front (x # xs) = Some (x, xs)"

text \<open>
  \<open>recursive_reconstruction\<close> consumes the six vectors from the front and numbers the
  leaves with the tree's counter (\<open>assignNodeId\<close>).  The model takes the counter and the
  six vectors and returns the node built, the counter and what is left of the vectors, or
  \<open>None\<close> where the source reads an empty vector or takes \<open>std::abs\<close> of the least
  \<open>int\<close>.
\<close>

function recursive_reconstruction ::
  "nat \<Rightarrow> int32 list \<Rightarrow> double list \<Rightarrow> int32 list \<Rightarrow> int32 list \<Rightarrow> int32 list \<Rightarrow> double list \<Rightarrow>
   (RFNode \<times> nat \<times> int32 list \<times> double list \<times> int32 list \<times> int32 list \<times> int32 list
      \<times> double list) option" where
  "recursive_reconstruction nodeCount var_ids split_vals naLeftCounts naRightCounts
     naDefaultDirections weights =
     (case pop_front var_ids of None \<Rightarrow> None | Some (var_id, var_ids1) \<Rightarrow>
      case pop_front split_vals of None \<Rightarrow> None | Some (split_val, split_vals1) \<Rightarrow>
      case pop_front naLeftCounts of None \<Rightarrow> None | Some (naLeftCount, naLeftCounts1) \<Rightarrow>
      case pop_front naRightCounts of None \<Rightarrow> None | Some (naRightCount, naRightCounts1) \<Rightarrow>
      case pop_front naDefaultDirections of None \<Rightarrow> None
      | Some (naDefaultDirection, naDefaultDirections1) \<Rightarrow>
        if sint var_id < 0 then
          (if sint var_id = INT_MIN then None else
           case pop_front var_ids1 of None \<Rightarrow> None | Some (second, var_ids2) \<Rightarrow>
           if sint second = INT_MIN then None else
           case pop_front weights of None \<Rightarrow> None | Some (predictionWeight, weights1) \<Rightarrow>
           case assignNodeId nodeCount of (node_id, nodeCount') \<Rightarrow>
             Some (LeafNode (nat \<bar>sint var_id\<bar>) (nat \<bar>sint second\<bar>) node_id
                     predictionWeight None,
                   nodeCount', var_ids2, split_vals1, naLeftCounts1, naRightCounts1,
                   naDefaultDirections1, weights1))
        else
          (case recursive_reconstruction nodeCount var_ids1 split_vals1 naLeftCounts1
                  naRightCounts1 naDefaultDirections1 weights of
             None \<Rightarrow> None
           | Some (leftChild, nodeCount1, var_ids2, split_vals2, naLeftCounts2, naRightCounts2,
                   naDefaultDirections2, weights2) \<Rightarrow>
               (case recursive_reconstruction nodeCount1 var_ids2 split_vals2 naLeftCounts2
                       naRightCounts2 naDefaultDirections2 weights2 of
                  None \<Rightarrow> None
                | Some (rightChild, nodeCount2, var_ids3, split_vals3, naLeftCounts3,
                        naRightCounts3, naDefaultDirections3, weights3) \<Rightarrow>
                    Some (SplitNode (nat ((sint var_id - 1) mod 2 ^ 64)) split_val
                            leftChild rightChild
                            (nat (sint naLeftCount mod 2 ^ 64))
                            (nat (sint naRightCount mod 2 ^ 64))
                            (sint naDefaultDirection),
                          nodeCount2, var_ids3, split_vals3, naLeftCounts3, naRightCounts3,
                          naDefaultDirections3, weights3))))"
  by pat_completeness auto

lemma pop_front_Some_iff [simp]: "pop_front xs = Some (x, ys) \<longleftrightarrow> xs = x # ys"
  by (cases xs) auto

lemma pop_front_None_iff [simp]: "pop_front xs = None \<longleftrightarrow> xs = []"
  by (cases xs) auto

lemma recursive_reconstruction_shorter:
  "recursive_reconstruction_dom (n, vs, svs, nls, nrs, nds, ws) \<Longrightarrow>
   recursive_reconstruction n vs svs nls nrs nds ws = Some (node, n', vs', rest) \<Longrightarrow>
   length vs' < length vs"
proof (induction n vs svs nls nrs nds ws arbitrary: node n' vs' rest
    rule: recursive_reconstruction.pinduct)
  case (1 n vs svs nls nrs nds ws)
  note unfold = recursive_reconstruction.psimps [OF "1.hyps"]
  from "1.prems" obtain v vs1 sv svs1 nl nls1 nr nrs1 nd nds1 where
    fronts: "vs = v # vs1" "svs = sv # svs1" "nls = nl # nls1" "nrs = nr # nrs1"
      "nds = nd # nds1"
    by (subst (asm) unfold) (auto split: option.splits)
  show ?case
  proof (cases "sint v < 0")
    case True
    with "1.prems" fronts show ?thesis
      by (subst (asm) unfold) (auto split: option.splits if_splits prod.splits)
  next
    case False
    with "1.prems" fronts obtain l n1 vs2 svs2 nls2 nrs2 nds2 ws2 where
      left: "recursive_reconstruction n vs1 svs1 nls1 nrs1 nds1 ws =
               Some (l, n1, vs2, svs2, nls2, nrs2, nds2, ws2)"
      and right: "recursive_reconstruction n1 vs2 svs2 nls2 nrs2 nds2 ws2 \<noteq> None"
      and right': "\<exists>r. recursive_reconstruction n1 vs2 svs2 nls2 nrs2 nds2 ws2 =
                      Some (r, n', vs', rest)"
      by (subst (asm) unfold) (auto split: option.splits)
    from right' obtain r where
      r: "recursive_reconstruction n1 vs2 svs2 nls2 nrs2 nds2 ws2 = Some (r, n', vs', rest)" ..
    have "length vs2 < length vs1"
      using "1.IH"(1) [of "(v, vs1)" v vs1 "(sv, svs1)" sv svs1 "(nl, nls1)" nl nls1
          "(nr, nrs1)" nr nrs1 "(nd, nds1)" nd nds1 l n1 vs2] fronts False left
      by simp
    moreover have "length vs' < length vs2"
      using "1.IH"(2) [of "(v, vs1)" v vs1 "(sv, svs1)" sv svs1 "(nl, nls1)" nl nls1
          "(nr, nrs1)" nr nrs1 "(nd, nds1)" nd nds1
          "(l, n1, vs2, svs2, nls2, nrs2, nds2, ws2)" l
          "(n1, vs2, svs2, nls2, nrs2, nds2, ws2)" n1
          "(vs2, svs2, nls2, nrs2, nds2, ws2)" vs2
          "(svs2, nls2, nrs2, nds2, ws2)" svs2
          "(nls2, nrs2, nds2, ws2)" nls2
          "(nrs2, nds2, ws2)" nrs2
          "(nds2, ws2)" nds2 ws2 r n' vs' rest] fronts False left r
      by simp
    ultimately show ?thesis using fronts by simp
  qed
qed

termination recursive_reconstruction
proof (relation "measure (\<lambda>(n, vs, svs, nls, nrs, nds, ws). length vs)", goal_cases)
  case 1
  show ?case by simp
next
  case (2 nodeCount var_ids split_vals naLeftCounts naRightCounts naDefaultDirections weights
      x2 x y)
  then have "var_ids = x # y" by (cases x2) simp
  then show ?case by simp
next
  case (3 nodeCount var_ids split_vals naLeftCounts naRightCounts naDefaultDirections weights
      x2 x y x2a xa ya x2b xb yb x2c xc yc x2d xd yd x2e xe ye xf yf xg yg)
  then have front: "var_ids = x # y" by (cases x2) simp
  from 3 have "recursive_reconstruction nodeCount y ya yb yc yd weights = Some (xe, xf, xg, yg)"
    by simp
  with 3 have "length xg < length y"
    using recursive_reconstruction_shorter by blast
  with front show ?case by simp
qed


declare recursive_reconstruction.simps [simp del]

text \<open>
  Modelled from the spec: \<open>RFNode::write_node_info\<close> is declared in \<open>RFNode.h\<close> and
  called by \<open>getTreeInfo\<close>, but its body is not among the sources.  The specification
  says that serialization flattens the tree in pre-order into parallel arrays; that a leaf
  record has a negative \<open>var_id\<close> whose absolute value is the averaging count, followed by
  a second entry giving the splitting count, and that the next entry of \<open>weights\<close> is the
  leaf's weight; and that a split record has \<open>var_id = feature + 1\<close> and one \<open>split_val\<close>.
  The arrays being parallel, and \<open>recursive_reconstruction\<close> consuming one entry of each
  of \<open>split_vals\<close>, \<open>naLeftCounts\<close>, \<open>naRightCounts\<close> and \<open>naDefaultDirections\<close> at
  every node, a leaf writes one entry to each of them; the specification does not say
  which, so the four values are a parameter (\<open>leaf_fill\<close>).
\<close>

record leaf_fill =
  fill_split_val :: double
  fill_naLeftCount :: int32
  fill_naRightCount :: int32
  fill_naDefaultDirection :: int32

fun write_node_info :: "leaf_fill \<Rightarrow> RFNode \<Rightarrow> DataFrame \<Rightarrow> tree_info \<Rightarrow> tree_info" where
  "write_node_info fill (LeafNode averageCount splitCount nodeId weight coefficients)
     trainingData treeInfo =
     treeInfo
       \<lparr> ti_var_ids := ti_var_ids treeInfo @ [- of_nat averageCount, of_nat splitCount],
         ti_split_vals := ti_split_vals treeInfo @ [fill_split_val fill],
         ti_naLeftCounts := ti_naLeftCounts treeInfo @ [fill_naLeftCount fill],
         ti_naRightCounts := ti_naRightCounts treeInfo @ [fill_naRightCount fill],
         ti_naDefaultDirections :=
           ti_naDefaultDirections treeInfo @ [fill_naDefaultDirection fill],
         ti_weights := ti_weights treeInfo @ [weight] \<rparr>"
| "write_node_info fill (SplitNode splitFeature splitValue leftChild rightChild naLeftCount
       naRightCount naDefaultDirection) trainingData treeInfo =
     write_node_info fill rightChild trainingData
       (write_node_info fill leftChild trainingData
          (treeInfo
             \<lparr> ti_var_ids := ti_var_ids treeInfo @ [of_nat ((splitFeature + 1) mod 2 ^ 64)],
               ti_split_vals := ti_split_vals treeInfo @ [splitValue],
               ti_naLeftCounts := ti_naLeftCounts treeInfo @ [of_nat naLeftCount],
               ti_naRightCounts := ti_naRightCounts treeInfo @ [of_nat naRightCount],
               ti_naDefaultDirections :=
                 ti_naDefaultDirections treeInfo @ [of_int naDefaultDirection] \<rparr>))"
| "write_node_info fill FreshNode trainingData treeInfo = treeInfo"

text \<open>\<open>getTreeInfo\<close>: the rows of the root, then the two index vectors plus one, then the seed.\<close>

definition new_tree_info :: tree_info where
  "new_tree_info =
     \<lparr> ti_var_ids = [], ti_split_vals = [], ti_naLeftCounts = [], ti_naRightCounts = [],
       ti_naDefaultDirections = [], ti_averagingSampleIndex = [],
       ti_splittingSampleIndex = [], ti_weights = [], ti_seed = 0 \<rparr>"

fun push_plus_one :: "nat list \<Rightarrow> size_t list \<Rightarrow> size_t list" where
  "push_plus_one [] out = out"
| "push_plus_one (i # rest) out = push_plus_one rest (out @ [of_nat i + 1])"

definition getTreeInfo :: "leaf_fill \<Rightarrow> forestryTree \<Rightarrow> DataFrame \<Rightarrow> tree_info" where
  "getTreeInfo fill t trainingData =
     (let treeInfo = write_node_info fill (getRoot t) trainingData new_tree_info;
          treeInfo1 = treeInfo \<lparr> ti_averagingSampleIndex :=
                         push_plus_one (getAveragingIndex t) (ti_averagingSampleIndex treeInfo) \<rparr>;
          treeInfo2 = treeInfo1 \<lparr> ti_splittingSampleIndex :=
                         push_plus_one (getSplittingIndex t) (ti_splittingSampleIndex treeInfo1) \<rparr>
      in treeInfo2 \<lparr> ti_seed := of_nat (getSeed t) \<rparr>)"

text \<open>
  \<open>reconstruct_tree\<close> sets every member of the tree it is called on (\<open>this\<close>), stores the
  index vectors minus one and rebuilds the nodes.
\<close>

fun push_minus_one :: "size_t list \<Rightarrow> nat list \<Rightarrow> nat list" where
  "push_minus_one [] out = out"
| "push_minus_one (i # rest) out = push_minus_one rest (out @ [unat (i - 1)])"

definition reconstruct_tree ::
  "forestryTree \<Rightarrow> nat \<Rightarrow> nat \<Rightarrow> nat \<Rightarrow> nat \<Rightarrow> nat \<Rightarrow> double \<Rightarrow> nat \<Rightarrow> nat \<Rightarrow> bool \<Rightarrow> bool \<Rightarrow> bool \<Rightarrow>
   double \<Rightarrow> uint32 \<Rightarrow> nat list \<Rightarrow> int32 list \<Rightarrow> double list \<Rightarrow> int32 list \<Rightarrow> int32 list \<Rightarrow>
   int32 list \<Rightarrow> size_t list \<Rightarrow> size_t list \<Rightarrow> double list \<Rightarrow> forestryTree option" where
  "reconstruct_tree this mtry minNodeSizeSpt minNodeSizeAvg minNodeSizeToSplitSpt
     minNodeSizeToSplitAvg minSplitGain maxDepth interactionDepth hasNas naDirection linearFlag
     overfitPenalty seed categoricalFeatureColsRcpp var_ids split_vals naLeftCounts
     naRightCounts naDefaultDirections averagingSampleIndex splittingSampleIndex predictWeights =
     (let t1 = this
            \<lparr> getMtry := mtry,
              getMinNodeSizeSpt := minNodeSizeSpt,
              getMinNodeSizeAvg := minNodeSizeAvg,
              getMinNodeSizeToSplitSpt := minNodeSizeToSplitSpt,
              getMinNodeSizeToSplitAvg := minNodeSizeToSplitAvg,
              getMinSplitGain := minSplitGain,
              getMaxDepth := maxDepth,
              getInteractionDepth := interactionDepth,
              gethasNas := hasNas,
              getNaDirection := naDirection,
              getLinear := linearFlag,
              getOverfitPenalty := overfitPenalty,
              getNodeCount := 0,
              getSeed := unat seed \<rparr>;
          t2 = t1 \<lparr> getAveragingIndex := push_minus_one averagingSampleIndex [] \<rparr>;
          t3 = t2 \<lparr> getSplittingIndex := push_minus_one splittingSampleIndex [] \<rparr>;
          t4 = t3 \<lparr> getRoot := FreshNode \<rparr>
      in case recursive_reconstruction (getNodeCount t4) var_ids split_vals naLeftCounts
                naRightCounts naDefaultDirections predictWeights of
           None \<Rightarrow> None
         | Some (rootNode, nodeCount, rest) \<Rightarrow>
             Some (t4 \<lparr> getRoot := rootNode, getNodeCount := nodeCount \<rparr>))"

text \<open>
  The node rows of a well-formed record.  A leaf takes two entries of \<open>var_ids\<close>, the
  first negative (and not the least \<open>int\<close>), the second the splitting count, so not
  negative, one weight, and the filler in the four other arrays.  A split takes one entry
  of each array but \<open>weights\<close>, its \<open>var_id\<close> not negative, followed by the rows of its
  left and then of its right subtree.
\<close>

inductive wf_rows ::
  "leaf_fill \<Rightarrow> int32 list \<times> double list \<times> int32 list \<times> int32 list \<times> int32 list \<times> double list
     \<Rightarrow> bool" for fill where
  leaf: "sint v < 0 \<Longrightarrow> sint v \<noteq> INT_MIN \<Longrightarrow> 0 \<le> sint s \<Longrightarrow>
         wf_rows fill ([v, s], [fill_split_val fill], [fill_naLeftCount fill],
                       [fill_naRightCount fill], [fill_naDefaultDirection fill], [w])"
| split: "0 \<le> sint v \<Longrightarrow>
          wf_rows fill (vsL, svsL, nlsL, nrsL, ndsL, wsL) \<Longrightarrow>
          wf_rows fill (vsR, svsR, nlsR, nrsR, ndsR, wsR) \<Longrightarrow>
          wf_rows fill (v # vsL @ vsR, sv # svsL @ svsR, nl # nlsL @ nlsR,
                        nr # nrsL @ nrsR, nd # ndsL @ ndsR, wsL @ wsR)"

section \<open>Growing a tree\<close>

text \<open>
  What the tree builder calls and the sources do not hold: the random generator
  (\<open>std::mt19937_64\<close>, its state of type \<open>'g\<close>) and \<open>std::discrete_distribution\<close>, the
  split-search kernels of \<open>treeSplitting.cpp\<close>, the ridge fit of \<open>RFNode.cpp\<close>, and the
  linear algebra on Armadillo matrices (type \<open>'m\<close>).  Each is a function of the arguments
  the source passes; one that is handed the generator returns its new state.  The five
  per-feature arrays of \<open>selectBestFeature\<close> are passed as a tuple.
\<close>

type_synonym bests4 = "double list \<times> double list \<times> nat list \<times> nat list"
type_synonym bests5 = "double list \<times> double list \<times> nat list \<times> nat list \<times> int list"

record ('g, 'm) collaborators =
  discrete_distribution :: "double list \<Rightarrow> 'g \<Rightarrow> nat \<times> 'g"
  seeded_generator :: "nat \<Rightarrow> 'g"
  default_monotonic_info :: monotonic_info
  setRidgeCoefficients :: "nat list \<Rightarrow> DataFrame \<Rightarrow> double \<Rightarrow> double list"
  initializelinear :: "DataFrame \<Rightarrow> nat list \<Rightarrow> 'm \<times> 'm"
  crossValidatedRSquared ::
    "DataFrame \<Rightarrow> nat list \<Rightarrow> nat list \<Rightarrow> nat list \<Rightarrow> double \<Rightarrow> nat \<Rightarrow> 'g \<Rightarrow> double \<times> 'g"
  findBestSplitRidgeCategorical ::
    "nat list \<Rightarrow> nat list \<Rightarrow> nat \<Rightarrow> nat \<Rightarrow> bests4 \<Rightarrow> DataFrame \<Rightarrow> nat \<Rightarrow> nat \<Rightarrow> 'g \<Rightarrow> double \<Rightarrow>
     'm option \<Rightarrow> 'm option \<Rightarrow> bests4 \<times> 'g"
  findBestSplitImputeCategorical ::
    "nat list \<Rightarrow> nat list \<Rightarrow> nat \<Rightarrow> nat \<Rightarrow> bests5 \<Rightarrow> DataFrame \<Rightarrow> nat \<Rightarrow> nat \<Rightarrow> 'g \<Rightarrow> nat \<Rightarrow>
     bests5 \<times> 'g"
  findBestSplitValueCategorical ::
    "nat list \<Rightarrow> nat list \<Rightarrow> nat \<Rightarrow> nat \<Rightarrow> bests4 \<Rightarrow> DataFrame \<Rightarrow> nat \<Rightarrow> nat \<Rightarrow> 'g \<Rightarrow> nat \<Rightarrow>
     bests4 \<times> 'g"
  findBestSplitRidge ::
    "nat list \<Rightarrow> nat list \<Rightarrow> nat \<Rightarrow> nat \<Rightarrow> bests4 \<Rightarrow> DataFrame \<Rightarrow> nat \<Rightarrow> nat \<Rightarrow> 'g \<Rightarrow> bool \<Rightarrow> nat \<Rightarrow>
     double \<Rightarrow> 'm option \<Rightarrow> 'm option \<Rightarrow> bests4 \<times> 'g"
  findBestSplitImpute ::
    "nat list \<Rightarrow> nat list \<Rightarrow> nat \<Rightarrow> nat \<Rightarrow> bests5 \<Rightarrow> DataFrame \<Rightarrow> nat \<Rightarrow> nat \<Rightarrow> 'g \<Rightarrow> bool \<Rightarrow> nat \<Rightarrow>
     bool \<Rightarrow> monotonic_info \<Rightarrow> bests5 \<times> 'g"
  findBestSplitValueNonCategorical ::
    "nat list \<Rightarrow> nat list \<Rightarrow> nat \<Rightarrow> nat \<Rightarrow> bests4 \<Rightarrow> DataFrame \<Rightarrow> nat \<Rightarrow> nat \<Rightarrow> 'g \<Rightarrow> bool \<Rightarrow> nat \<Rightarrow>
     bool \<Rightarrow> monotonic_info \<Rightarrow> bests4 \<times> 'g"
  determineBestSplit :: "nat \<Rightarrow> bests5 \<Rightarrow> 'g \<Rightarrow> (nat \<times> double \<times> double \<times> int) \<times> 'g"
  updateBestSplitG :: "'m option \<Rightarrow> DataFrame \<Rightarrow> nat list \<Rightarrow> nat \<Rightarrow> double \<Rightarrow> 'm \<times> 'm"
  updateBestSplitS :: "'m option \<Rightarrow> DataFrame \<Rightarrow> nat list \<Rightarrow> nat \<Rightarrow> double \<Rightarrow> 'm \<times> 'm"

text \<open>
  \<open>sampleFeatures\<close>: with no weights the features handed in are returned; otherwise
  indices are drawn until \<open>mtry\<close> distinct ones are found.  The loop need not end (when
  fewer than \<open>mtry\<close> indices can be drawn), so it is a partial function: \<open>None\<close> is a run
  that does not return.
\<close>

partial_function (option) sampleLoopNumCols ::
  "('g, 'm) collaborators \<Rightarrow> nat \<Rightarrow> nat list \<Rightarrow> double list \<Rightarrow> nat list \<Rightarrow> 'g \<Rightarrow>
   (nat list \<times> 'g) option" where
  "sampleLoopNumCols K mtry numCols weights featureList g =
     (if length featureList < mtry then
        (case discrete_distribution K weights g of
           (index, g') \<Rightarrow>
             if index < length numCols then
               (if featureList = [] \<or> numCols ! index \<notin> set featureList then
                  sampleLoopNumCols K mtry numCols weights (featureList @ [numCols ! index]) g'
                else sampleLoopNumCols K mtry numCols weights featureList g')
             else None)
      else Some (featureList, g))"

declare sampleLoopNumCols.simps [code]

partial_function (option) sampleLoop ::
  "('g, 'm) collaborators \<Rightarrow> nat \<Rightarrow> double list \<Rightarrow> nat list \<Rightarrow> 'g \<Rightarrow> (nat list \<times> 'g) option" where
  "sampleLoop K mtry weights featureList g =
     (if length featureList < mtry then
        (case discrete_distribution K weights g of
           (randomIndex, g') \<Rightarrow>
             if featureList = [] \<or> randomIndex \<notin> set featureList then
               sampleLoop K mtry weights (featureList @ [randomIndex]) g'
             else sampleLoop K mtry weights featureList g')
      else Some (featureList, g))"

declare sampleLoop.simps [code]

definition sampleFeatures ::
  "('g, 'm) collaborators \<Rightarrow> nat \<Rightarrow> 'g \<Rightarrow> int \<Rightarrow> bool \<Rightarrow> nat list \<Rightarrow> double list \<Rightarrow> nat list \<Rightarrow>
   (nat list \<times> 'g) option" where
  "sampleFeatures K mtry g totalColumns numFeaturesOnly numCols weights sampledFeatures =
     (if length weights = 0 then Some (sampledFeatures, g)
      else if numFeaturesOnly then sampleLoopNumCols K mtry numCols weights [] g
      else sampleLoop K mtry weights [] g)"


text \<open>
  \<open>selectBestFeature\<close>: the per-feature bests start at minus infinity, NaN, 0 (what
  \<open>std::numeric_limits<size_t>::quiet_NaN()\<close> is), 0 and 0; each sampled feature is
  handed to the kernel chosen by (categorical, linear, hasNas); \<open>determineBestSplit\<close>
  picks the split; for a linear tree the ridge accumulators of the two sides are computed.
  The kernels that are not handed the NA directions leave them as they are.
\<close>

fun selectLoop ::
  "('g, 'm) collaborators \<Rightarrow> forestryTree \<Rightarrow> nat list \<Rightarrow> nat list \<Rightarrow> DataFrame \<Rightarrow> bool \<Rightarrow> nat \<Rightarrow>
   bool \<Rightarrow> double \<Rightarrow> 'm option \<Rightarrow> 'm option \<Rightarrow> bool \<Rightarrow> monotonic_info \<Rightarrow>
   nat \<Rightarrow> nat list \<Rightarrow> bests5 \<Rightarrow> 'g \<Rightarrow> bests5 \<times> 'g" where
  "selectLoop K t averagingSampleIndex splittingSampleIndex trainingData splitMiddle maxObs
     linearFlag overfitPenalty gtotal stotal monotone_splits monotone_details i [] bests g =
     (bests, g)"
| "selectLoop K t averagingSampleIndex splittingSampleIndex trainingData splitMiddle maxObs
     linearFlag overfitPenalty gtotal stotal monotone_splits monotone_details i
     (currentFeature # rest) bests g =
     (case bests of
        (lossAll, valueAll, featureAll, countAll, naDirectionAll) \<Rightarrow>
          (case
             (if currentFeature \<in> set (getCatCols trainingData) then
                (if linearFlag then
                   (case findBestSplitRidgeCategorical K averagingSampleIndex
                           splittingSampleIndex i currentFeature
                           (lossAll, valueAll, featureAll, countAll) trainingData
                           (getMinNodeSizeToSplitSpt t) (getMinNodeSizeToSplitAvg t) g
                           overfitPenalty gtotal stotal of
                      ((l, v, f, c), g') \<Rightarrow> ((l, v, f, c, naDirectionAll), g'))
                 else if gethasNas t then
                   findBestSplitImputeCategorical K averagingSampleIndex splittingSampleIndex
                     i currentFeature bests trainingData
                     (getMinNodeSizeToSplitSpt t) (getMinNodeSizeToSplitAvg t) g maxObs
                 else
                   (case findBestSplitValueCategorical K averagingSampleIndex
                           splittingSampleIndex i currentFeature
                           (lossAll, valueAll, featureAll, countAll) trainingData
                           (getMinNodeSizeToSplitSpt t) (getMinNodeSizeToSplitAvg t) g maxObs of
                      ((l, v, f, c), g') \<Rightarrow> ((l, v, f, c, naDirectionAll), g')))
              else if linearFlag then
                (case findBestSplitRidge K averagingSampleIndex splittingSampleIndex i
                        currentFeature (lossAll, valueAll, featureAll, countAll) trainingData
                        (getMinNodeSizeToSplitSpt t) (getMinNodeSizeToSplitAvg t) g
                        splitMiddle maxObs overfitPenalty gtotal stotal of
                   ((l, v, f, c), g') \<Rightarrow> ((l, v, f, c, naDirectionAll), g'))
              else if gethasNas t then
                findBestSplitImpute K averagingSampleIndex splittingSampleIndex i
                  currentFeature bests trainingData
                  (getMinNodeSizeToSplitSpt t) (getMinNodeSizeToSplitAvg t) g
                  splitMiddle maxObs monotone_splits monotone_details
              else
                (case findBestSplitValueNonCategorical K averagingSampleIndex
                        splittingSampleIndex i currentFeature
                        (lossAll, valueAll, featureAll, countAll) trainingData
                        (getMinNodeSizeToSplitSpt t) (getMinNodeSizeToSplitAvg t) g
                        splitMiddle maxObs monotone_splits monotone_details of
                   ((l, v, f, c), g') \<Rightarrow> ((l, v, f, c, naDirectionAll), g'))) of
             (bests', g') \<Rightarrow>
               selectLoop K t averagingSampleIndex splittingSampleIndex trainingData
                 splitMiddle maxObs linearFlag overfitPenalty gtotal stotal monotone_splits
                 monotone_details (i + 1) rest bests' g'))"

definition selectBestFeature ::
  "('g, 'm) collaborators \<Rightarrow> forestryTree \<Rightarrow> nat list \<Rightarrow> nat list \<Rightarrow> nat list \<Rightarrow> DataFrame \<Rightarrow>
   'g \<Rightarrow> bool \<Rightarrow> nat \<Rightarrow> bool \<Rightarrow> double \<Rightarrow> 'm option \<Rightarrow> 'm option \<Rightarrow> bool \<Rightarrow> monotonic_info \<Rightarrow>
   (nat \<times> double \<times> double \<times> int \<times> ('m \<times> 'm) option \<times> ('m \<times> 'm) option) \<times> 'g" where
  "selectBestFeature K t featureList averagingSampleIndex splittingSampleIndex trainingData g
     splitMiddle maxObs linearFlag overfitPenalty gtotal stotal monotone_splits
     monotone_details =
     (let mtry = length featureList;
          bests0 = (replicate mtry NInf, replicate mtry NaN, replicate mtry 0,
                    replicate mtry 0, replicate mtry 0)
      in case selectLoop K t averagingSampleIndex splittingSampleIndex trainingData
                splitMiddle maxObs linearFlag overfitPenalty gtotal stotal monotone_splits
                monotone_details 0 featureList bests0 g of
           (bests, g1) \<Rightarrow>
             (case determineBestSplit K mtry bests g1 of
                ((bestSplitFeature, bestSplitValue, bestSplitLoss, bestSplitNaDir), g2) \<Rightarrow>
                  ((bestSplitFeature, bestSplitValue, bestSplitLoss, bestSplitNaDir,
                    (if linearFlag then
                       Some (updateBestSplitG K gtotal trainingData splittingSampleIndex
                               bestSplitFeature bestSplitValue)
                     else None),
                    (if linearFlag then
                       Some (updateBestSplitS K stotal trainingData splittingSampleIndex
                               bestSplitFeature bestSplitValue)
                     else None)),
                   g2)))"

text \<open>
  Sealing a node as a leaf, as \<open>recursivePartition\<close> does in four places: a fresh id, the
  two counts, the mean of the averaging outcomes and, for a linear tree, the ridge
  coefficients fitted on the averaging indices.
\<close>

definition sealLeaf ::
  "('g, 'm) collaborators \<Rightarrow> forestryTree \<Rightarrow> nat list \<Rightarrow> nat list \<Rightarrow> DataFrame \<Rightarrow> bool \<Rightarrow> double \<Rightarrow>
   RFNode \<times> forestryTree" where
  "sealLeaf K t averagingSampleIndex splittingSampleIndex trainingData linearFlag
     overfitPenalty =
     (case assignNodeId (getNodeCount t) of
        (node_id, nodeCount') \<Rightarrow>
          (LeafNode (length averagingSampleIndex) (length splittingSampleIndex) node_id
             (partitionMean trainingData averagingSampleIndex)
             (if linearFlag then
                Some (setRidgeCoefficients K averagingSampleIndex trainingData overfitPenalty)
              else None),
           t \<lparr> getNodeCount := nodeCount' \<rparr>))"

text \<open>
  The test \<open>lAvgSize*rAvgSize*lSplSize*rSplSize == 0\<close> on four \<open>size_t\<close> values: the
  product wraps around at \<open>2 ^ 64\<close>.
\<close>

definition productIsZero :: "nat \<Rightarrow> nat \<Rightarrow> nat \<Rightarrow> nat \<Rightarrow> bool" where
  "productIsZero lAvgSize rAvgSize lSplSize rSplSize =
     ((lAvgSize * rAvgSize * lSplSize * rSplSize) mod SIZE_MOD = 0)"

subsection \<open>The sizes of the partitions\<close>

text \<open>Whether a value that is not missing goes to the left partition, and whether a
  value is missing.\<close>

definition goesLeft :: "DataFrame \<Rightarrow> nat \<Rightarrow> double \<Rightarrow> bool \<Rightarrow> nat \<Rightarrow> bool" where
  "goesLeft td splitFeature splitValue categoical i =
     (if categoical then deq (getPoint td i splitFeature) splitValue
      else dless (getPoint td i splitFeature) splitValue)"

definition isMissing :: "DataFrame \<Rightarrow> nat \<Rightarrow> nat \<Rightarrow> bool" where
  "isMissing td splitFeature i = isnan (getPoint td i splitFeature)"

lemma sendNas_eq:
  "sendNas nas part naCount = (part @ nas, naCount + length nas)"
  by (induction nas arbitrary: part naCount) simp_all

lemma scanWithNas_eq:
  "scanWithNas td f v c xs l r na =
     (l @ filter (\<lambda>i. \<not> isMissing td f i \<and> goesLeft td f v c i) xs,
      r @ filter (\<lambda>i. \<not> isMissing td f i \<and> \<not> goesLeft td f v c i) xs,
      na @ filter (isMissing td f) xs)"
  by (induction xs arbitrary: l r na) (auto simp: Let_def goesLeft_def isMissing_def)

lemma scanNoNas_eq:
  "scanNoNas td f v c xs l r =
     (l @ filter (goesLeft td f v c) xs, r @ filter (\<lambda>i. \<not> goesLeft td f v c i) xs)"
  by (induction xs arbitrary: l r) (auto simp: Let_def goesLeft_def)

lemma mset_three_filters:
  "mset (filter (\<lambda>i. \<not> M i \<and> G i) xs) + mset (filter (\<lambda>i. \<not> M i \<and> \<not> G i) xs)
     + mset (filter M xs) = mset xs"
  by (induction xs) auto

lemma mset_two_filters:
  "mset (filter G xs) + mset (filter (\<lambda>i. \<not> G i) xs) = mset xs"
  by (induction xs) auto

lemma splitDataIntoTwoParts_length:
  assumes "splitDataIntoTwoParts td xs f v d [] [] c hasNas nl nr = (l, r, nl', nr')"
  shows "length l + length r \<le> length xs"
proof -
  have "length (filter (\<lambda>i. \<not> isMissing td f i \<and> goesLeft td f v c i) xs)
      + length (filter (\<lambda>i. \<not> isMissing td f i \<and> \<not> goesLeft td f v c i) xs)
      + length (filter (isMissing td f) xs) = length xs"
    using mset_three_filters [of "isMissing td f" "goesLeft td f v c" xs]
    by (metis size_mset size_union)
  moreover have "length (filter (goesLeft td f v c) xs)
      + length (filter (\<lambda>i. \<not> goesLeft td f v c i) xs) = length xs"
    using mset_two_filters [of "goesLeft td f v c" xs] by (metis size_mset size_union)
  ultimately show ?thesis
    using assms
    by (auto simp: splitDataIntoTwoParts_def scanWithNas_eq scanNoNas_eq sendNas_eq
        split: if_splits)
qed

lemma splitData_length:
  assumes "splitData td avg spt f v d [] [] [] [] nl nr c h = (aL, aR, sL, sR, nl', nr')"
  shows "length aL + length aR \<le> length avg"
proof -
  obtain a b x y where
    "splitDataIntoTwoParts td avg f v d [] [] c h 0 0 = (a, b, x, y)"
    by (metis prod_cases4)
  moreover from this assms have "a = aL" "b = aR"
    by (auto simp: splitData_def split: prod.splits)
  ultimately show ?thesis
    using splitDataIntoTwoParts_length by blast
qed

lemma product_nonzero:
  "\<not> productIsZero a b c d \<Longrightarrow> 0 < a \<and> 0 < b \<and> 0 < c \<and> 0 < d"
  by (cases "a = 0"; cases "b = 0"; cases "c = 0"; cases "d = 0")
    (simp_all add: productIsZero_def)

lemma child_smaller:
  assumes "(aL, rest1) = splitData td avg spt f v d [] [] [] [] 0 0 c h"
    and "(aR, rest2) = rest1" and "(sL, rest3) = rest2" and "(sR, rest4) = rest3"
    and "\<not> productIsZero (length aL) (length aR) (length sL) (length sR)"
  shows "length aL < length avg" and "length aR < length avg"
proof -
  obtain nl' nr' where "rest4 = (nl', nr')" by (cases rest4)
  with assms(1-4) have
    "splitData td avg spt f v d [] [] [] [] 0 0 c h = (aL, aR, sL, sR, nl', nr')"
    by (metis)
  then have "length aL + length aR \<le> length avg" by (rule splitData_length)
  moreover from assms(5) have "0 < length aL" and "0 < length aR"
    using product_nonzero [of "length aL" "length aR" "length sL" "length sR"]
    by (simp_all del: length_greater_0_conv)
  ultimately show "length aL < length avg" and "length aR < length avg" by linarith+
qed

subsection \<open>The recursion\<close>

text \<open>
  \<open>recursivePartition\<close>.  The node to fill is a pointer argument in the source and the
  first component of the result here; the tree (\<open>this\<close>) and the generator are threaded
  through.  \<open>None\<close> is a run with no result: a feature sampling that does not end, or the
  undefined read in \<open>updateMonotoneConstraints\<close>.
\<close>

function recursivePartition ::
  "('g, 'm) collaborators \<Rightarrow> forestryTree \<Rightarrow> nat list \<Rightarrow> nat list \<Rightarrow> DataFrame \<Rightarrow> 'g \<Rightarrow> nat \<Rightarrow>
   bool \<Rightarrow> nat \<Rightarrow> bool \<Rightarrow> double \<Rightarrow> 'm option \<Rightarrow> 'm option \<Rightarrow> bool \<Rightarrow> monotonic_info \<Rightarrow> bool \<Rightarrow>
   (RFNode \<times> forestryTree \<times> 'g) option" where
  "recursivePartition K t averagingSampleIndex splittingSampleIndex trainingData g depth
     splitMiddle maxObs linearFlag overfitPenalty gtotal stotal monotone_splits
     monotone_details naDirection =
     (if length averagingSampleIndex < getMinNodeSizeAvg t \<or>
         length splittingSampleIndex < getMinNodeSizeSpt t \<or>
         depth = getMaxDepth t then
        (case sealLeaf K t averagingSampleIndex splittingSampleIndex trainingData linearFlag
                overfitPenalty of
           (leaf, t') \<Rightarrow> Some (leaf, t', g))
      else
        (case sampleFeatures K (getMtry t) g (int (getNumColumns trainingData)) False
                (getNumCols trainingData)
                (if getInteractionDepth t \<le> depth then getdeepFeatureWeights trainingData
                 else getfeatureWeights trainingData)
                (if getInteractionDepth t \<le> depth
                 then getdeepFeatureWeightsVariables trainingData
                 else getfeatureWeightsVariables trainingData) of
           None \<Rightarrow> None
         | Some (featureList, g1) \<Rightarrow>
        (case selectBestFeature K t featureList averagingSampleIndex splittingSampleIndex
                trainingData g1 splitMiddle maxObs linearFlag overfitPenalty gtotal stotal
                monotone_splits monotone_details of
           ((bestSplitFeature, bestSplitValue, bestSplitLoss, bestSplitNaDir, bestSplitG,
             bestSplitS), g2) \<Rightarrow>
        if isnan bestSplitValue then
          (case sealLeaf K t averagingSampleIndex splittingSampleIndex trainingData linearFlag
                  overfitPenalty of
             (leaf, t') \<Rightarrow> Some (leaf, t', g2))
        else
        (case splitData trainingData averagingSampleIndex splittingSampleIndex
                bestSplitFeature bestSplitValue bestSplitNaDir [] [] [] [] 0 0
                (bestSplitFeature \<in> set (getCatCols trainingData)) (gethasNas t) of
           (averagingLeftPartitionIndex, averagingRightPartitionIndex,
            splittingLeftPartitionIndex, splittingRightPartitionIndex,
            naLeftCount, naRightCount) \<Rightarrow>
        if productIsZero (length averagingLeftPartitionIndex)
             (length averagingRightPartitionIndex) (length splittingLeftPartitionIndex)
             (length splittingRightPartitionIndex) then
          (case sealLeaf K t averagingSampleIndex splittingSampleIndex trainingData linearFlag
                  overfitPenalty of
             (leaf, t') \<Rightarrow> Some (leaf, t', g2))
        else
        (case (if dgreater (getMinSplitGain t) (Fin 0) then
                 (case crossValidatedRSquared K trainingData splittingSampleIndex
                         splittingLeftPartitionIndex splittingRightPartitionIndex
                         overfitPenalty 1 g2 of
                    (rSquaredDifference, g3) \<Rightarrow>
                      (dless rSquaredDifference (getMinSplitGain t), g3))
               else (False, g2)) of
           (belowMinSplitGain, g3) \<Rightarrow>
        if belowMinSplitGain then
          (case sealLeaf K t averagingSampleIndex splittingSampleIndex trainingData linearFlag
                  overfitPenalty of
             (leaf, t') \<Rightarrow> Some (leaf, t', g3))
        else
        (case (if monotone_splits then
                 updateMonotoneConstraints monotone_details
                   (default_monotonic_info K) (default_monotonic_info K)
                   (getMonotonicConstraints trainingData)
                   (partitionMean trainingData splittingLeftPartitionIndex)
                   (partitionMean trainingData splittingRightPartitionIndex)
                   bestSplitFeature
               else Some (default_monotonic_info K, default_monotonic_info K)) of
           None \<Rightarrow> None
         | Some (monotonic_details_left, monotonic_details_right) \<Rightarrow>
        (let bestSplitNaDir' =
               (if naDirection \<and> naLeftCount = 0 \<and> naRightCount = 0 then
                  (case discrete_distribution K
                          [Fin (real (length averagingLeftPartitionIndex)),
                           Fin (real (length averagingRightPartitionIndex))]
                          (seeded_generator K (getSeed t)) of
                     (draw, g') \<Rightarrow> if draw = 0 then - 1 else 1)
                else bestSplitNaDir)
         in
        (case recursivePartition K t averagingLeftPartitionIndex splittingLeftPartitionIndex
                trainingData g3 (depth + 1) splitMiddle maxObs linearFlag overfitPenalty
                (if linearFlag then map_option fst bestSplitG else None)
                (if linearFlag then map_option fst bestSplitS else None)
                monotone_splits monotonic_details_left naDirection of
           None \<Rightarrow> None
         | Some (leftChild, t1, g4) \<Rightarrow>
        (case recursivePartition K t1 averagingRightPartitionIndex
                splittingRightPartitionIndex trainingData g4 (depth + 1) splitMiddle maxObs
                linearFlag overfitPenalty
                (if linearFlag then map_option snd bestSplitG else None)
                (if linearFlag then map_option snd bestSplitS else None)
                monotone_splits monotonic_details_right naDirection of
           None \<Rightarrow> None
         | Some (rightChild, t2, g5) \<Rightarrow>
             Some (SplitNode bestSplitFeature bestSplitValue leftChild rightChild
                     naLeftCount naRightCount bestSplitNaDir',
                   t2, g5))))))))))"
  by pat_completeness auto

termination recursivePartition
proof (relation "measure (\<lambda>(K, t, avg, rest). length avg)", goal_cases)
  case 1
  show ?case by simp
next
  case 2
  then show ?case
    by simp (rule child_smaller(1); assumption)
next
  case 3
  then show ?case
    by simp (rule child_smaller(2); assumption)
qed

declare recursivePartition.simps [simp del]

subsection \<open>The constructor\<close>

text \<open>The \<open>std::runtime_error\<close>s of the constructor, one constructor for each message.\<close>

datatype runtime_error =
    MinNodeSizeAvgZero
  | MinNodeSizeSptZero
  | MinNodeSizeToSplitSptZero
  | MinNodeSizeToSplitAvgZero
  | MinNodeSizeToSplitAvgExceeds nat nat
  | MinNodeSizeToSplitSptExceeds nat nat
  | MaxDepthZero
  | MinSplitGainWithoutLinear
  | AveragingSampleIndexEmpty
  | SplittingSampleIndexEmpty
  | MtryZero
  | MtryExceedsFeatures nat nat

text \<open>
  The constructor.  \<open>raw\<close> is the object before the constructor runs: the member
  \<open>_linear\<close> is not assigned and keeps what \<open>raw\<close> holds.  The result is the error
  thrown, or the outcome of growing the tree: the tree and the generator, or \<open>None\<close> when
  \<open>recursivePartition\<close> has no result.
\<close>

definition forestryTree_constructor ::
  "('g, 'm) collaborators \<Rightarrow> forestryTree \<Rightarrow> DataFrame \<Rightarrow> nat \<Rightarrow> nat \<Rightarrow> nat \<Rightarrow> nat \<Rightarrow> nat \<Rightarrow>
   double \<Rightarrow> nat \<Rightarrow> nat \<Rightarrow> nat list \<Rightarrow> nat list \<Rightarrow> 'g \<Rightarrow> bool \<Rightarrow> nat \<Rightarrow> bool \<Rightarrow> bool \<Rightarrow> bool \<Rightarrow>
   double \<Rightarrow> nat \<Rightarrow> runtime_error + (forestryTree \<times> 'g) option" where
  "forestryTree_constructor K raw trainingData mtry minNodeSizeSpt minNodeSizeAvg
     minNodeSizeToSplitSpt minNodeSizeToSplitAvg minSplitGain maxDepth interactionDepth
     splittingSampleIndex averagingSampleIndex random_number_generator splitMiddle maxObs
     hasNas naDirection linearFlag overfitPenalty seed =
     (if minNodeSizeAvg = 0 then Inl MinNodeSizeAvgZero
      else if minNodeSizeSpt = 0 then Inl MinNodeSizeSptZero
      else if minNodeSizeToSplitSpt = 0 then Inl MinNodeSizeToSplitSptZero
      else if minNodeSizeToSplitAvg = 0 then Inl MinNodeSizeToSplitAvgZero
      else if minNodeSizeToSplitAvg > length averagingSampleIndex then
        Inl (MinNodeSizeToSplitAvgExceeds minNodeSizeToSplitAvg (length averagingSampleIndex))
      else if minNodeSizeToSplitSpt > length splittingSampleIndex then
        Inl (MinNodeSizeToSplitSptExceeds minNodeSizeToSplitSpt (length splittingSampleIndex))
      else if maxDepth = 0 then Inl MaxDepthZero
      else if dneq minSplitGain (Fin 0) \<and> \<not> linearFlag then Inl MinSplitGainWithoutLinear
      else if length averagingSampleIndex = 0 then Inl AveragingSampleIndexEmpty
      else if length splittingSampleIndex = 0 then Inl SplittingSampleIndexEmpty
      else if mtry = 0 then Inl MtryZero
      else if mtry > getNumColumns trainingData then
        Inl (MtryExceedsFeatures mtry (getNumColumns trainingData))
      else
        (let t0 = raw
               \<lparr> getMtry := mtry,
                 getMinNodeSizeAvg := minNodeSizeAvg,
                 getMinNodeSizeSpt := minNodeSizeSpt,
                 getMinNodeSizeToSplitAvg := minNodeSizeToSplitAvg,
                 getMinNodeSizeToSplitSpt := minNodeSizeToSplitSpt,
                 getMinSplitGain := minSplitGain,
                 gethasNas := hasNas,
                 getNaDirection := naDirection,
                 getMaxDepth := maxDepth,
                 getInteractionDepth := interactionDepth,
                 getAveragingIndex := averagingSampleIndex,
                 getSplittingIndex := splittingSampleIndex,
                 getOverfitPenalty := overfitPenalty,
                 getRoot := FreshNode,
                 getNodeCount := 0,
                 getSeed := seed \<rparr>;
             totals = (if linearFlag
                       then Some (initializelinear K trainingData (getSplittingIndex t0))
                       else None);
             g_ptr = map_option fst totals;
             s_ptr = map_option snd totals;
             monotone_splits =
               (\<not> list_all (\<lambda>i. i = 0) (getMonotonicConstraints trainingData));
             monotonic_details = (default_monotonic_info K)
               \<lparr> monotonic_constraints := getMonotonicConstraints trainingData,
                 upper_bound := Fin DBL_MAX,
                 lower_bound := Fin (- DBL_MAX),
                 monotoneAvg := getMonotoneAvg trainingData \<rparr>
         in Inr (case recursivePartition K t0 (getAveragingIndex t0) (getSplittingIndex t0)
                        trainingData random_number_generator 0 splitMiddle maxObs linearFlag
                        overfitPenalty g_ptr s_ptr monotone_splits monotonic_details
                        naDirection of
                   None \<Rightarrow> None
                 | Some (rootNode, t1, g') \<Rightarrow> Some (t1 \<lparr> getRoot := rootNode \<rparr>, g'))))"

text \<open>The ids the counter has given out in a tree, from left to right, and the number
  of nodes of a tree.\<close>

fun leafIds :: "RFNode \<Rightarrow> nat list" where
  "leafIds FreshNode = []"
| "leafIds (LeafNode averageCount splitCount nodeId weight coefficients) = [nodeId]"
| "leafIds (SplitNode f v leftChild rightChild nl nr nd) = leafIds leftChild @ leafIds rightChild"

fun countNodes :: "RFNode \<Rightarrow> nat" where
  "countNodes FreshNode = 1"
| "countNodes (LeafNode averageCount splitCount nodeId weight coefficients) = 1"
| "countNodes (SplitNode f v leftChild rightChild nl nr nd) =
     1 + countNodes leftChild + countNodes rightChild"

subsection \<open>The bound records of the children, as specified\<close>

text \<open>
  What the specification says of the bound records \<open>left\<close> and \<open>right\<close> of the two
  children of a node split on feature \<open>j\<close>, given the record of the node and the two
  child means: the constraint vector and the \<open>monotoneAvg\<close> flag are the parent's; under
  the constraint \<open>1\<close> the upper bound of the left child and the lower bound of the right
  child are the mean of the two child means, each first projected through the parent's
  bounds, and the two other bounds are the parent's; under \<open>-1\<close> the same with upper and
  lower bound exchanged; otherwise all four bounds are the parent's.
\<close>

definition specChildBounds ::
  "monotonic_info \<Rightarrow> nat \<Rightarrow> double \<Rightarrow> double \<Rightarrow> monotonic_info \<Rightarrow> monotonic_info \<Rightarrow> bool"
  where
  "specChildBounds parent j meanL meanR left right =
     (let mid = ddiv_pos (dadd (calculateMonotonicBound meanL parent)
                               (calculateMonotonicBound meanR parent)) 2;
          constraint = monotonic_constraints parent ! j
      in monotonic_constraints left = monotonic_constraints parent
       \<and> monotonic_constraints right = monotonic_constraints parent
       \<and> monotoneAvg left = monotoneAvg parent
       \<and> monotoneAvg right = monotoneAvg parent
       \<and> (if constraint = 1 then
              upper_bound left = mid \<and> lower_bound right = mid
            \<and> lower_bound left = lower_bound parent \<and> upper_bound right = upper_bound parent
          else if constraint = - 1 then
              lower_bound left = mid \<and> upper_bound right = mid
            \<and> upper_bound left = upper_bound parent \<and> lower_bound right = lower_bound parent
          else
              upper_bound left = upper_bound parent \<and> lower_bound left = lower_bound parent
            \<and> upper_bound right = upper_bound parent
            \<and> lower_bound right = lower_bound parent))"

text \<open>
  The same at every split of a tree.  \<open>specMonotoneTree \<dots> t avg spt depth md node\<close>
  reads: \<open>node\<close> is a leaf, or it is a split on a feature \<open>f\<close> that indexes into the
  constraint vector of \<open>md\<close>, and its two children are what \<open>recursivePartition\<close>
  returns, under monotone splitting and one level deeper, on the two sides of the
  partition of \<open>avg\<close> and \<open>spt\<close>, called with two bound records that are as specified
  for the parent record \<open>md\<close> and the partition means of the two splitting sides; and
  the same holds of both children with their own records.
\<close>

inductive specMonotoneTree ::
  "('g, 'm) collaborators \<Rightarrow> DataFrame \<Rightarrow> bool \<Rightarrow> nat \<Rightarrow> bool \<Rightarrow> double \<Rightarrow> bool \<Rightarrow>
   forestryTree \<Rightarrow> nat list \<Rightarrow> nat list \<Rightarrow> nat \<Rightarrow> monotonic_info \<Rightarrow> RFNode \<Rightarrow> bool"
  for K :: "('g, 'm) collaborators" and trainingData and splitMiddle and maxObs
    and linearFlag and overfitPenalty and naDirection
  where
    leaf:
      "specMonotoneTree K trainingData splitMiddle maxObs linearFlag overfitPenalty naDirection
         t averagingSampleIndex splittingSampleIndex depth monotone_details
         (LeafNode averageCount splitCount nodeId weight coefficients)"
  | split:
      "splitData trainingData averagingSampleIndex splittingSampleIndex f v dir [] [] [] [] 0 0
          (f \<in> set (getCatCols trainingData)) (gethasNas t) =
          (averagingLeft, averagingRight, splittingLeft, splittingRight, nl, nr) \<Longrightarrow>
       recursivePartition K t averagingLeft splittingLeft trainingData g (depth + 1)
          splitMiddle maxObs linearFlag overfitPenalty gtotalLeft stotalLeft True
          monotonic_details_left naDirection = Some (leftChild, t1, g1) \<Longrightarrow>
       recursivePartition K t1 averagingRight splittingRight trainingData g1 (depth + 1)
          splitMiddle maxObs linearFlag overfitPenalty gtotalRight stotalRight True
          monotonic_details_right naDirection = Some (rightChild, t2, g2) \<Longrightarrow>
       f < length (monotonic_constraints monotone_details) \<Longrightarrow>
       specChildBounds monotone_details f (partitionMean trainingData splittingLeft)
          (partitionMean trainingData splittingRight)
          monotonic_details_left monotonic_details_right \<Longrightarrow>
       specMonotoneTree K trainingData splitMiddle maxObs linearFlag overfitPenalty naDirection
          t averagingLeft splittingLeft (depth + 1) monotonic_details_left leftChild \<Longrightarrow>
       specMonotoneTree K trainingData splitMiddle maxObs linearFlag overfitPenalty naDirection
          t1 averagingRight splittingRight (depth + 1) monotonic_details_right rightChild \<Longrightarrow>
       specMonotoneTree K trainingData splitMiddle maxObs linearFlag overfitPenalty naDirection
          t averagingSampleIndex splittingSampleIndex depth monotone_details
          (SplitNode f v leftChild rightChild nl nr nd)"

section \<open>Example data\<close>

text \<open>A small data set: one numeric feature whose value at observation \<open>i\<close> is \<open>i\<close>,
  missing at observation 1; the outcome at \<open>i\<close> is \<open>i\<close>.\<close>

definition toyData :: DataFrame where
  "toyData =
     \<lparr> getPoint = (\<lambda>i j. if i = 1 then NaN else Fin (real i)),
       getOutcomePoint = (\<lambda>i. Fin (real i)),
       getLinObsData = (\<lambda>i. []),
       partitionMean = (\<lambda>is. if is = [] then NaN
                               else Fin (real (sum_list is) / real (length is))),
       getNumColumns = 1,
       getNumRows = 4,
       getCatCols = [],
       getNumCols = [0],
       getfeatureWeights = [Fin 1],
       getfeatureWeightsVariables = [0],
       getdeepFeatureWeights = [Fin 1],
       getdeepFeatureWeightsVariables = [0],
       getMonotonicConstraints = [0],
       getMonotoneAvg = False \<rparr>"

text \<open>A tree object with unsorted index vectors, a bound record and a data set with one
  non-decreasing feature.\<close>

definition sampledTree :: forestryTree where
  "sampledTree =
     \<lparr> getMtry = 1, getMinNodeSizeSpt = 1, getMinNodeSizeAvg = 1,
       getMinNodeSizeToSplitSpt = 1, getMinNodeSizeToSplitAvg = 1,
       getMinSplitGain = Fin 0, getMaxDepth = 1, getInteractionDepth = 1,
       getAveragingIndex = [3], getSplittingIndex = [2, 1],
       getRoot = LeafNode 1 2 1 (Fin 3) None, getNodeCount = 1,
       gethasNas = False, getNaDirection = False, getLinear = False,
       getOverfitPenalty = Fin 0, getSeed = 42 \<rparr>"

definition rootBounds :: monotonic_info where
  "rootBounds = \<lparr> monotonic_constraints = [1], upper_bound = Fin 10, lower_bound = Fin 0,
                  monotoneAvg = True \<rparr>"

definition monotoneData :: DataFrame where
  "monotoneData = toyData \<lparr> getMonotonicConstraints := [1], getMonotoneAvg := True \<rparr>"

text \<open>A filler, and the record of a tree with one split and two leaves.\<close>

definition zeroFill :: leaf_fill where
  "zeroFill = \<lparr> fill_split_val = Fin 0, fill_naLeftCount = 0, fill_naRightCount = 0,
                 fill_naDefaultDirection = 0 \<rparr>"

definition toyRecord :: tree_info where
  "toyRecord =
     \<lparr> ti_var_ids = [1, - 2, 2, - 1, 2],
       ti_split_vals = [Fin 2, Fin 0, Fin 0],
       ti_naLeftCounts = [1, 0, 0],
       ti_naRightCounts = [0, 0, 0],
       ti_naDefaultDirections = [- 1, 0, 0],
       ti_averagingSampleIndex = [1, 2, 4],
       ti_splittingSampleIndex = [4, 3, 2, 1],
       ti_weights = [Fin (1 / 2), Fin 3],
       ti_seed = 42 \<rparr>"

text \<open>
  Collaborators for running the builder on the small data set: a generator that counts
  its draws, a distribution that always draws index 0, and a split search that always
  proposes feature 0 at the value 2 with the NA direction \<open>-1\<close>.
\<close>

definition toyK :: "(nat, unit) collaborators" where
  "toyK =
     \<lparr> discrete_distribution = (\<lambda>weights g. (0, g + 1)),
       seeded_generator = (\<lambda>seed. seed),
       default_monotonic_info =
         \<lparr> monotonic_constraints = [], upper_bound = Fin 0, lower_bound = Fin 0,
           monotoneAvg = False \<rparr>,
       setRidgeCoefficients = (\<lambda>averagingSampleIndex trainingData overfitPenalty. []),
       initializelinear = (\<lambda>trainingData splitIndexes. ((), ())),
       crossValidatedRSquared = (\<lambda>trainingData spt sptL sptR overfitPenalty numTimesCV g.
                                  (Fin 1, g)),
       findBestSplitRidgeCategorical = (\<lambda>avg spt i f bests td minSpt minAvg g penalty gt st.
                                  (bests, g)),
       findBestSplitImputeCategorical = (\<lambda>avg spt i f bests td minSpt minAvg g maxObs.
                                  (bests, g)),
       findBestSplitValueCategorical = (\<lambda>avg spt i f bests td minSpt minAvg g maxObs.
                                  (bests, g)),
       findBestSplitRidge = (\<lambda>avg spt i f bests td minSpt minAvg g splitMiddle maxObs penalty
                                  gt st. (bests, g)),
       findBestSplitImpute = (\<lambda>avg spt i f bests td minSpt minAvg g splitMiddle maxObs ms md.
                                  (bests, g)),
       findBestSplitValueNonCategorical = (\<lambda>avg spt i f bests td minSpt minAvg g splitMiddle
                                  maxObs ms md. (bests, g)),
       determineBestSplit = (\<lambda>mtry bests g. ((0, Fin 2, Fin 1, - 1), g + 1)),
       updateBestSplitG = (\<lambda>gtotal td spt f v. ((), ())),
       updateBestSplitS = (\<lambda>stotal td spt f v. ((), ())) \<rparr>"

text \<open>
  The tree object as the constructor hands it to \<open>recursivePartition\<close> on the small
  data set, the bound record of the root, and the tree the constructor returns.
\<close>

definition freshTree :: forestryTree where
  "freshTree = sampledTree
     \<lparr> getMtry := 1, getMinNodeSizeAvg := 1, getMinNodeSizeSpt := 1,
       getMinNodeSizeToSplitAvg := 1, getMinNodeSizeToSplitSpt := 1,
       getMinSplitGain := Fin 0, gethasNas := False, getNaDirection := True,
       getMaxDepth := 1, getInteractionDepth := 5,
       getAveragingIndex := [0, 1, 2, 3], getSplittingIndex := [0, 1, 2, 3],
       getOverfitPenalty := Fin 0, getRoot := FreshNode, getNodeCount := 0, getSeed := 42 \<rparr>"

definition rootDetails :: monotonic_info where
  "rootDetails = \<lparr> monotonic_constraints = [0], upper_bound = Fin DBL_MAX,
                   lower_bound = Fin (- DBL_MAX), monotoneAvg = False \<rparr>"


definition grownTree :: forestryTree where
  "grownTree = sampledTree
     \<lparr> getMtry := 1, getMinNodeSizeAvg := 1, getMinNodeSizeSpt := 1,
       getMinNodeSizeToSplitAvg := 1, getMinNodeSizeToSplitSpt := 1,
       getMinSplitGain := Fin 0, gethasNas := False, getNaDirection := True,
       getMaxDepth := 1, getInteractionDepth := 5,
       getAveragingIndex := [0, 1, 2, 3], getSplittingIndex := [0, 1, 2, 3],
       getOverfitPenalty := Fin 0,
       getRoot := SplitNode 0 (Fin 2) (LeafNode 1 1 1 (Fin 0) None)
                    (LeafNode 3 3 2 (Fin 2) None) 0 0 (- 1),
       getNodeCount := 2, getSeed := 42 \<rparr>"

section \<open>Properties of the partition step\<close>

text \<open>
  When the tree has no missing values, or the best NA direction is \<open>-1\<close> or \<open>1\<close>, the
  partition step keeps every index exactly once, and no index is on both sides.
\<close>

lemma splitDataIntoTwoParts_exact:
  assumes "\<not> hasNas \<or> naBestDirection = - 1 \<or> naBestDirection = 1"
    and "splitDataIntoTwoParts td xs f v naBestDirection [] [] c hasNas nl nr = (l, r, nl', nr')"
  shows "mset l + mset r = mset xs" and "set l \<inter> set r = {}"
proof -
  have three: "mset (filter (\<lambda>i. \<not> isMissing td f i \<and> goesLeft td f v c i) xs)
      + mset (filter (\<lambda>i. \<not> isMissing td f i \<and> \<not> goesLeft td f v c i) xs)
      + mset (filter (isMissing td f) xs) = mset xs"
    by (rule mset_three_filters)
  have two: "mset (filter (goesLeft td f v c) xs)
      + mset (filter (\<lambda>i. \<not> goesLeft td f v c i) xs) = mset xs"
    by (rule mset_two_filters)
  show "mset l + mset r = mset xs"
    using assms three two
    by (auto simp: splitDataIntoTwoParts_def scanWithNas_eq scanNoNas_eq sendNas_eq
        ac_simps split: if_splits)
  show "set l \<inter> set r = {}"
    using assms
    by (auto simp: splitDataIntoTwoParts_def scanWithNas_eq scanNoNas_eq sendNas_eq
        split: if_splits)
qed

text \<open>
  Claim C3.  The partition step is claimed to drop no observation, whatever the best NA
  direction.  With missing values enabled and the best NA direction 0 (its initial value,
  which neither branch of the routing handles), the observation whose feature value is
  missing reaches neither side: of the indices 0, 1, 2 of the data set above, split at the
  value 2, index 0 goes left, index 2 goes right and index 1 is lost, in the averaging and
  in the splitting set alike, and neither NA counter moves.
\<close>

theorem splitData_drops_missing_at_direction_zero:
  "splitData toyData [0, 1, 2] [0, 1, 2] 0 (Fin 2) 0 [] [] [] [] 0 0 False True
     = ([0], [2], [0], [2], 0, 0)"
  by (simp add: splitData_def splitDataIntoTwoParts_def toyData_def Let_def)

section \<open>Properties of the rounding\<close>

lemma find_exp_eq:
  assumes "2 powi (int m - 1022) \<le> x" and "x < 2 powi (int m - 1021)" and "m \<le> n"
  shows "find_exp x n = int m - 1022"
  using assms(3)
proof (induction n)
  case 0
  then show ?case by simp
next
  case (Suc n)
  show ?case
  proof (cases "m = Suc n")
    case True
    with assms(1) show ?thesis by simp
  next
    case False
    with Suc.prems have le: "m \<le> n" by simp
    have "(2::real) powi (int m - 1021) \<le> 2 powi (int (Suc n) - 1022)"
      using le by (intro power_int_increasing) simp_all
    with assms(2) have "\<not> 2 powi (int (Suc n) - 1022) \<le> x" by simp
    with Suc.IH [OF le] show ?thesis by simp
  qed
qed

lemma find_exp_small:
  assumes "x < 2 powi (- 1022)"
  shows "find_exp x n = - 1022"
proof (induction n)
  case 0
  then show ?case by simp
next
  case (Suc n)
  have "(2::real) powi (- 1022) \<le> 2 powi (int (Suc n) - 1022)"
    by (intro power_int_increasing) simp_all
  with assms have "\<not> 2 powi (int (Suc n) - 1022) \<le> x" by simp
  with Suc.IH show ?case by simp
qed

lemma find_exp_spec:
  assumes "2 powi (- 1022) \<le> x" and "x < 2 powi (int n - 1021)"
  shows "2 powi (find_exp x n) \<le> x \<and> x < 2 powi (find_exp x n + 1)"
  using assms(2)
proof (induction n)
  case 0
  with assms(1) show ?case by simp
next
  case (Suc n)
  show ?case
  proof (cases "2 powi (int (Suc n) - 1022) \<le> x")
    case True
    with Suc.prems show ?thesis by (simp add: algebra_simps)
  next
    case False
    then have "x < 2 powi (int n - 1021)" by (simp add: algebra_simps)
    from Suc.IH [OF this] False show ?thesis by simp
  qed
qed

text \<open>The binade of a value is the one exponent that brackets it.\<close>

lemma binade_eq:
  assumes "2 powi e \<le> \<bar>x\<bar>" and "\<bar>x\<bar> < 2 powi (e + 1)" and "- 1022 \<le> e" and "e \<le> 1023"
  shows "binade x = e"
proof -
  define m where "m = nat (e + 1022)"
  with assms(3) have e: "e = int m - 1022" by simp
  from assms(4) e have "m \<le> 2045" by simp
  moreover from assms(1) e have "2 powi (int m - 1022) \<le> \<bar>x\<bar>" by simp
  moreover from assms(2) e have "\<bar>x\<bar> < 2 powi (int m - 1021)" by (simp add: algebra_simps)
  ultimately show ?thesis unfolding binade_def e by (intro find_exp_eq)
qed

lemma binade_small: "\<bar>x\<bar> < 2 powi (- 1022) \<Longrightarrow> binade x = - 1022"
  unfolding binade_def by (rule find_exp_small)

lemma binade_spec:
  assumes "2 powi (- 1022) \<le> \<bar>x\<bar>" and "\<bar>x\<bar> < 2 ^ 1024"
  shows "2 powi (binade x) \<le> \<bar>x\<bar>" and "\<bar>x\<bar> < 2 powi (binade x + 1)"
proof -
  have "\<bar>x\<bar> < 2 powi (int 2045 - 1021)" using assms(2) by simp
  from find_exp_spec [OF assms(1) this]
  show "2 powi (binade x) \<le> \<bar>x\<bar>" and "\<bar>x\<bar> < 2 powi (binade x + 1)"
    by (simp_all add: binade_def)
qed

lemma roundEven_of_int: "roundEven (of_int n) = n"
  by (simp add: roundEven_def)

text \<open>A value with a significand of 53 bits and an exponent in range is its own
  rounding.\<close>

lemma roundToDouble_representable:
  assumes x: "x = of_int m * 2 powi k" and m: "\<bar>m\<bar> < 2 ^ 53" and k: "- 1074 \<le> k" "k \<le> 971"
  shows "roundToDouble x = Fin x"
proof -
  have absx: "\<bar>x\<bar> = of_int \<bar>m\<bar> * 2 powi k" by (simp add: x abs_mult)
  from m have "\<bar>m\<bar> \<le> 2 ^ 53 - 1" by simp
  then have "(of_int \<bar>m\<bar> :: real) \<le> of_int (2 ^ 53 - 1)" by (simp only: of_int_le_iff)
  then have m': "of_int \<bar>m\<bar> \<le> (2 ^ 53 - 1 :: real)" by simp
  have "\<bar>x\<bar> \<le> (2 ^ 53 - 1) * 2 powi k"
    unfolding absx using m' by (intro mult_right_mono) simp_all
  also have "\<dots> \<le> (2 ^ 53 - 1) * 2 powi 971"
    using k(2) by (intro mult_left_mono power_int_increasing) simp_all
  also have "\<dots> < 2 ^ 1024 - 2 ^ 970" by simp
  finally have small: "\<bar>x\<bar> < 2 ^ 1024 - 2 ^ 970" .
  have le: "binade x - 52 \<le> k"
  proof (cases "\<bar>x\<bar> < 2 powi (- 1022)")
    case True
    then show ?thesis using k(1) by (simp add: binade_small)
  next
    case False
    then have "2 powi (- 1022) \<le> \<bar>x\<bar>" by simp
    moreover have "(0::real) < 2 ^ 970" by (rule zero_less_power) simp
    with small have "\<bar>x\<bar> < 2 ^ 1024" by linarith
    ultimately have "2 powi (binade x) \<le> \<bar>x\<bar>" by (rule binade_spec)
    also have "\<bar>x\<bar> < 2 ^ 53 * 2 powi k"
      unfolding absx using m by (intro mult_strict_right_mono) simp_all
    also have "\<dots> = 2 powi (53 + k)" by (simp add: power_int_add)
    finally have lt: "(2::real) powi (binade x) < 2 powi (53 + k)" .
    have "binade x < 53 + k"
    proof (rule ccontr)
      assume "\<not> binade x < 53 + k"
      then have "(2::real) powi (53 + k) \<le> 2 powi (binade x)"
        by (intro power_int_increasing) simp_all
      with lt show False by simp
    qed
    then show ?thesis by simp
  qed
  define e where "e = binade x - 52"
  define j where "j = nat (k - e)"
  from le have k': "k = e + int j" by (simp add: j_def e_def)
  have pk: "(2::real) powi k = 2 powi e * 2 ^ j"
    unfolding k' by (simp add: power_int_add)
  have xe: "x = of_int (m * 2 ^ j) * 2 powi e"
    unfolding x pk by simp
  have "x / 2 powi e = of_int (m * 2 ^ j)"
    by (subst xe) simp
  then have "of_int (roundEven (x / 2 powi e)) * 2 powi e = x"
    using xe by (simp only: roundEven_of_int)
  with small show ?thesis by (simp add: roundToDouble_def Let_def e_def)
qed

lemma roundToDouble_of_int:
  "\<bar>n\<bar> < 2 ^ 53 \<Longrightarrow> roundToDouble (of_int n) = Fin (of_int n)"
  using roundToDouble_representable [of "of_int n" n 0] by simp

text \<open>
  Two sums that are not exact: \<open>1 + (1 + 1 / 2 ^ 52)\<close> lies half way between two values
  and is rounded to the even one, so that the mean of the two summands is stored as 1; and
  the sum of the largest finite value with itself is infinite, and so is its half.
\<close>

lemma dadd_tie_to_even:
  "dadd (Fin 1) (Fin (1 + 1 / 2 ^ 52)) = Fin 2"
  "ddiv_pos (dadd (Fin 1) (Fin (1 + 1 / 2 ^ 52))) 2 = Fin 1"
proof -
  have b: "binade (1 + (1 + 1 / 2 ^ 52)) = 1" by (rule binade_eq) simp_all
  have q: "(1 + (1 + 1 / 2 ^ 52)) / 2 powi (- 51) = (of_int (2 ^ 52) + 1 / 2 :: real)"
    by (simp add: power_int_minus field_simps)
  have "roundEven (of_int (2 ^ 52) + 1 / 2) = 2 ^ 52"
    unfolding roundEven_def Let_def by (simp del: of_int_power of_int_numeral)
  with q have "roundToDouble (1 + (1 + 1 / 2 ^ 52)) = Fin 2"
    unfolding roundToDouble_def b Let_def by (simp add: power_int_minus)
  then show "dadd (Fin 1) (Fin (1 + 1 / 2 ^ 52)) = Fin 2" by simp
  then show "ddiv_pos (dadd (Fin 1) (Fin (1 + 1 / 2 ^ 52))) 2 = Fin 1"
    using roundToDouble_of_int [of 1] by simp
qed

lemma dadd_overflow:
  "dadd (Fin DBL_MAX) (Fin DBL_MAX) = PInf"
  "ddiv_pos (dadd (Fin DBL_MAX) (Fin DBL_MAX)) 2 = PInf"
  by (simp_all add: roundToDouble_def DBL_MAX_def)

section \<open>Properties of the monotone bound update\<close>


lemma updateMonotoneConstraints_returns:
  assumes "bestSplitFeature < length (monotonic_constraints parent)"
  shows "\<exists>l r. updateMonotoneConstraints parent l0 r0 constraints leftMean rightMean
                   bestSplitFeature = Some (l, r)"
  using assms by (simp add: updateMonotoneConstraints_def Let_def)

text \<open>
  A record with the bounds 0 and 10, the constraint \<open>1\<close> and the child means 2 and 12:
  the right mean is projected to 10, and the bound between the children is 6.
\<close>

lemma updateMonotoneConstraints_example:
  "updateMonotoneConstraints rootBounds rootBounds rootBounds
        (getMonotonicConstraints monotoneData) (Fin 2) (Fin 12) 0 =
      Some (\<lparr> monotonic_constraints = [1], upper_bound = Fin 6, lower_bound = Fin 0,
               monotoneAvg = True \<rparr>,
            \<lparr> monotonic_constraints = [1], upper_bound = Fin 10, lower_bound = Fin 6,
               monotoneAvg = True \<rparr>)"
  using roundToDouble_of_int [of 12] roundToDouble_of_int [of 6]
  by (simp add: updateMonotoneConstraints_def rootBounds_def monotoneData_def toyData_def
      calculateMonotonicBound_def dgreater_def Let_def)

section \<open>Properties of the out-of-bag index computations\<close>

lemma push_all_eq: "push_all xs out = out @ xs"
  by (induction xs arbitrary: out) simp_all

lemma set_set_union: "set (set_union xs ys) = set xs \<union> set ys"
  by (induction xs ys rule: set_union.induct) auto

lemma sorted_set_union: "sorted xs \<Longrightarrow> sorted ys \<Longrightarrow> sorted (set_union xs ys)"
  by (induction xs ys rule: set_union.induct) (auto simp: set_set_union)

lemma set_difference_filter:
  "sorted xs \<Longrightarrow> distinct xs \<Longrightarrow> sorted ys \<Longrightarrow>
   set_difference xs ys = filter (\<lambda>x. x \<notin> set ys) xs"
proof (induction xs ys rule: set_difference.induct)
  case (1 ys)
  then show ?case by simp
next
  case (2 x xs)
  then show ?case by simp
next
  case (3 x xs y ys)
  show ?case
  proof (cases "x < y")
    case True
    with 3 show ?thesis by (auto intro!: filter_cong)
  next
    case False
    note nlt = this
    show ?thesis
    proof (cases "y < x")
      case True
      with 3 nlt have "set_difference (x # xs) (y # ys) = filter (\<lambda>x. x \<notin> set ys) (x # xs)"
        by simp
      also have "\<dots> = filter (\<lambda>x. x \<notin> set (y # ys)) (x # xs)"
        using True 3(4) by (intro filter_cong) auto
      finally show ?thesis .
    next
      case False
      with nlt have eq: "x = y" by simp
      with 3 have "set_difference (x # xs) (y # ys) = filter (\<lambda>x. x \<notin> set ys) xs"
        by simp
      also have "\<dots> = filter (\<lambda>x. x \<notin> set (y # ys)) (x # xs)"
        using eq 3(4,5) by (auto intro!: filter_cong)
      finally show ?thesis .
    qed
  qed
qed

lemma insert_groups_Some:
  "\<forall>i \<in> set is. i < length gm \<Longrightarrow> \<exists>S'. insert_groups gm is S = Some S'"
  by (induction "is" arbitrary: S) simp_all

lemma push_out_of_group_Some:
  "\<forall>i \<in> set is. i < length gm \<Longrightarrow> \<exists>ys. push_out_of_group gm S is out = Some (out @ ys)"
proof (induction "is" arbitrary: out)
  case Nil
  then show ?case by simp
next
  case (Cons i "is")
  from Cons.prems have rest: "\<forall>i \<in> set is. i < length gm" and i: "i < length gm" by simp_all
  show ?case
  proof (cases "gm ! i \<in> S")
    case True
    with i Cons.IH [OF rest, of out] show ?thesis by simp
  next
    case False
    from Cons.IH [OF rest, of "out @ [i]"] obtain ys
      where "push_out_of_group gm S is (out @ [i]) = Some ((out @ [i]) @ ys)" by blast
    with i False have "push_out_of_group gm S (i # is) out = Some (out @ (i # ys))" by simp
    then show ?thesis by blast
  qed
qed

lemma push_out_of_group_prefix:
  "push_out_of_group gm S is out = Some out' \<Longrightarrow> \<exists>ys. out' = out @ ys"
proof (induction "is" arbitrary: out)
  case Nil
  then show ?case by simp
next
  case (Cons i "is")
  then show ?case by (fastforce split: if_splits)
qed

text \<open>
  Claim C6, amended.  When the entries of \<open>allIndex\<close> are pairwise distinct, in any
  order, \<open>getOOBindex\<close> appends to its output the entries of \<open>allIndex\<close> that are neither
  in the splitting nor in the averaging index vector, in ascending order, and
  \<open>getOOBhonestIndex\<close> appends those that are not in the averaging index vector, in
  ascending order.
\<close>

theorem getOOBindex_complement:
  assumes "distinct allIndex"
  shows "snd (snd (getOOBindex t out allIndex)) =
           out @ filter (\<lambda>i. i \<notin> set (getSplittingIndex t) \<and> i \<notin> set (getAveragingIndex t))
                   (sort allIndex)
       \<and> snd (snd (getOOBhonestIndex t out allIndex)) =
           out @ filter (\<lambda>i. i \<notin> set (getAveragingIndex t)) (sort allIndex)"
proof -
  have d: "distinct (sort allIndex)" using assms by simp
  have u: "sorted (set_union (sort (getSplittingIndex t)) (sort (getAveragingIndex t)))"
    by (simp add: sorted_set_union)
  have "set_difference (sort allIndex)
          (set_union (sort (getSplittingIndex t)) (sort (getAveragingIndex t))) =
        filter (\<lambda>i. i \<notin> set (getSplittingIndex t) \<and> i \<notin> set (getAveragingIndex t))
          (sort allIndex)"
    using set_difference_filter [OF _ d u] by (simp add: set_set_union)
  moreover have "set_difference (sort allIndex) (sort (getAveragingIndex t)) =
        filter (\<lambda>i. i \<notin> set (getAveragingIndex t)) (sort allIndex)"
    using set_difference_filter [OF _ d, of "sort (getAveragingIndex t)"] by simp
  ultimately show ?thesis
    by (simp add: getOOBindex_def getOOBhonestIndex_def Let_def push_all_eq)
qed

theorem getOOBindex_complement_witness:
  "distinct [4, 0, 2, 1, 3 :: nat]
   \<and> snd (snd (getOOBindex sampledTree [9] [4, 0, 2, 1, 3])) = [9, 0, 4]
   \<and> snd (snd (getOOBhonestIndex sampledTree [9] [4, 0, 2, 1, 3])) = [9, 0, 1, 2, 4]"
  using getOOBindex_complement [of "[4, 0, 2, 1, 3]" sampledTree "[9]"]
  by (simp add: sampledTree_def)

text \<open>
  The claim as stated, for every \<open>allIndex\<close>, fails when \<open>allIndex\<close> repeats an entry:
  \<open>std::set_difference\<close> removes one occurrence for every occurrence in the sampled
  union, so with index 1 twice in \<open>allIndex\<close> and once in the splitting vector one
  occurrence of 1 is appended, although 1 is a splitting index.
\<close>

theorem getOOBindex_duplicates_counterexample:
  "snd (snd (getOOBindex sampledTree [] [1, 1])) = [1]
   \<and> filter (\<lambda>i. i \<notin> set (getSplittingIndex sampledTree)
                 \<and> i \<notin> set (getAveragingIndex sampledTree)) (sort [1, 1]) = []"
  by (simp add: getOOBindex_def sampledTree_def Let_def)

text \<open>
  Claim C7.  \<open>getDoubleOOBIndex\<close> yields what \<open>getOOBindex\<close> yields: the same tree,
  the same \<open>allIndex\<close> and the same output vector, for every tree and every input.
\<close>

theorem getDoubleOOBIndex_eq_getOOBindex:
  "getDoubleOOBIndex t out allIndex = getOOBindex t out allIndex"
  by (simp add: getDoubleOOBIndex_def getOOBindex_def)

text \<open>
  Claim C10, amended.  \<open>getOOBindex\<close> and \<open>getDoubleOOBIndex\<close> sort the splitting index
  vector, the averaging index vector and \<open>allIndex\<close>; \<open>getOOBhonestIndex\<close> and
  \<open>getOOGIndex\<close>, with \<open>doubleOOB\<close> set or not, sort the averaging index vector and
  \<open>allIndex\<close> only.  Each appends to the output vector and changes nothing else of the
  tree.  \<open>getOOGIndex\<close> returns when every index it looks up lies within
  \<open>groupMemberships\<close>.
\<close>

theorem oob_index_frame:
  "(\<exists>ys. getOOBindex t out allIndex =
      (t\<lparr>getSplittingIndex := sort (getSplittingIndex t),
         getAveragingIndex := sort (getAveragingIndex t)\<rparr>, sort allIndex, out @ ys))
   \<and> (\<exists>ys. getDoubleOOBIndex t out allIndex =
      (t\<lparr>getSplittingIndex := sort (getSplittingIndex t),
         getAveragingIndex := sort (getAveragingIndex t)\<rparr>, sort allIndex, out @ ys))
   \<and> (\<exists>ys. getOOBhonestIndex t out allIndex =
      (t\<lparr>getAveragingIndex := sort (getAveragingIndex t)\<rparr>, sort allIndex, out @ ys))
   \<and> (\<forall>r. getOOGIndex t out groupMemberships allIndex doubleOOB = Some r \<longrightarrow>
        (\<exists>ys. r = (t\<lparr>getAveragingIndex := sort (getAveragingIndex t)\<rparr>, sort allIndex, out @ ys)))
   \<and> ((\<forall>i \<in> set allIndex \<union> set (getAveragingIndex t)
                \<union> (if doubleOOB then set (getSplittingIndex t) else {}).
          i < length groupMemberships) \<longrightarrow>
        (\<exists>r. getOOGIndex t out groupMemberships allIndex doubleOOB = Some r))"
proof (intro conjI allI impI)
  show "\<exists>ys. getOOBindex t out allIndex =
      (t\<lparr>getSplittingIndex := sort (getSplittingIndex t),
         getAveragingIndex := sort (getAveragingIndex t)\<rparr>, sort allIndex, out @ ys)"
    by (simp add: getOOBindex_def Let_def push_all_eq)
  show "\<exists>ys. getDoubleOOBIndex t out allIndex =
      (t\<lparr>getSplittingIndex := sort (getSplittingIndex t),
         getAveragingIndex := sort (getAveragingIndex t)\<rparr>, sort allIndex, out @ ys)"
    by (simp add: getDoubleOOBIndex_def Let_def push_all_eq)
  show "\<exists>ys. getOOBhonestIndex t out allIndex =
      (t\<lparr>getAveragingIndex := sort (getAveragingIndex t)\<rparr>, sort allIndex, out @ ys)"
    by (simp add: getOOBhonestIndex_def Let_def push_all_eq)
next
  fix r
  assume "getOOGIndex t out groupMemberships allIndex doubleOOB = Some r"
  then show "\<exists>ys. r = (t\<lparr>getAveragingIndex := sort (getAveragingIndex t)\<rparr>, sort allIndex, out @ ys)"
    by (auto simp: getOOGIndex_def Let_def split: option.splits dest: push_out_of_group_prefix)
next
  assume inr: "\<forall>i \<in> set allIndex \<union> set (getAveragingIndex t)
                \<union> (if doubleOOB then set (getSplittingIndex t) else {}).
          i < length groupMemberships"
  obtain g1 where g1: "insert_groups groupMemberships (sort (getAveragingIndex t)) {} = Some g1"
    using insert_groups_Some [of "sort (getAveragingIndex t)" groupMemberships "{}"] inr by auto
  have "\<exists>g2. (if doubleOOB then insert_groups groupMemberships (getSplittingIndex t) g1
                    else Some g1) = Some g2"
    using insert_groups_Some [of "getSplittingIndex t" groupMemberships g1] inr
    by (cases doubleOOB) simp_all
  then obtain g2 where g2: "(if doubleOOB then insert_groups groupMemberships (getSplittingIndex t) g1
                    else Some g1) = Some g2" ..
  obtain ys where "push_out_of_group groupMemberships g2 (sort allIndex) out = Some (out @ ys)"
    using push_out_of_group_Some [of "sort allIndex" groupMemberships g2 out] inr by auto
  with g1 g2 show "\<exists>r. getOOGIndex t out groupMemberships allIndex doubleOOB = Some r"
    by (cases doubleOOB) (simp_all add: getOOGIndex_def Let_def)
qed

theorem oob_index_frame_witness:
  "(\<exists>ys. getOOGIndex sampledTree [9] [7, 7, 7, 8] [3, 0] True =
      Some (sampledTree\<lparr>getAveragingIndex := sort (getAveragingIndex sampledTree)\<rparr>,
            sort [3, 0], [9] @ ys))"
proof -
  have inr: "\<forall>i \<in> set [3, 0] \<union> set (getAveragingIndex sampledTree)
                \<union> (if True then set (getSplittingIndex sampledTree) else {}).
              i < length [7, 7, 7, 8 :: nat]"
    by (simp add: sampledTree_def)
  from oob_index_frame [of sampledTree "[9]" "[3, 0]" "[7, 7, 7, 8]" True] inr
  show ?thesis by blast
qed

text \<open>
  The claim as stated has \<open>getOOGIndex\<close> with \<open>doubleOOB\<close> set sort the splitting index
  vector as well; it reads that vector and leaves it as it is.
\<close>

theorem getOOGIndex_leaves_splitting_index_counterexample:
  "getOOGIndex sampledTree [] [7, 7, 7, 8] [3, 0] True =
     Some (sampledTree\<lparr>getAveragingIndex := [3]\<rparr>, [0, 3], [])
   \<and> getSplittingIndex (sampledTree\<lparr>getAveragingIndex := [3]\<rparr>) = [2, 1]
   \<and> sort (getSplittingIndex sampledTree) = [1, 2]"
  by (simp add: getOOGIndex_def sampledTree_def Let_def)

section \<open>Properties of reconstruction and flattening\<close>

lemma recursive_reconstruction_leaf:
  "sint v < 0 \<Longrightarrow> sint v \<noteq> INT_MIN \<Longrightarrow> sint s \<noteq> INT_MIN \<Longrightarrow>
   recursive_reconstruction n (v # s # vs) (sv # svs) (nl # nls) (nr # nrs) (nd # nds) (w # ws) =
     Some (LeafNode (nat \<bar>sint v\<bar>) (nat \<bar>sint s\<bar>) (n + 1) w None,
           n + 1, vs, svs, nls, nrs, nds, ws)"
  by (subst recursive_reconstruction.simps) (simp add: assignNodeId_def)

lemma recursive_reconstruction_split:
  "\<not> sint v < 0 \<Longrightarrow>
   recursive_reconstruction n vs svs nls nrs nds ws =
     Some (l, n1, vs1, svs1, nls1, nrs1, nds1, ws1) \<Longrightarrow>
   recursive_reconstruction n1 vs1 svs1 nls1 nrs1 nds1 ws1 =
     Some (r, n2, vs2, svs2, nls2, nrs2, nds2, ws2) \<Longrightarrow>
   recursive_reconstruction n (v # vs) (sv # svs) (nl # nls) (nr # nrs) (nd # nds) ws =
     Some (SplitNode (nat ((sint v - 1) mod 2 ^ 64)) sv l r (nat (sint nl mod 2 ^ 64))
             (nat (sint nr mod 2 ^ 64)) (sint nd),
           n2, vs2, svs2, nls2, nrs2, nds2, ws2)"
  by (subst recursive_reconstruction.simps) simp

lemma push_plus_one_eq: "push_plus_one xs out = out @ map (\<lambda>i. of_nat i + 1) xs"
  by (induction xs arbitrary: out) simp_all

lemma push_minus_one_eq: "push_minus_one xs out = out @ map (\<lambda>i. unat (i - 1)) xs"
  by (induction xs arbitrary: out) simp_all

lemma int32_of_abs_neg: "sint v < 0 \<Longrightarrow> - of_nat (nat \<bar>sint v\<bar>) = (v :: int32)"
  by simp

lemma int32_of_abs_nonneg: "0 \<le> sint s \<Longrightarrow> of_nat (nat \<bar>sint s\<bar>) = (s :: int32)"
  by simp

lemma int32_of_size_t: "of_nat (nat (sint v mod 2 ^ 64)) = (v :: int32)"
proof -
  have "(of_nat (nat (sint v mod 2 ^ 64)) :: int32) = word_of_int (sint v mod 2 ^ 64)"
    by simp
  also have "\<dots> = word_of_int (sint v)"
    by (subst word_of_int_eq_iff) (simp add: take_bit_eq_mod mod_mod_cancel)
  finally show ?thesis by simp
qed

lemma int32_of_feature:
  "0 \<le> sint v \<Longrightarrow> of_nat ((nat ((sint v - 1) mod 2 ^ 64) + 1) mod 2 ^ 64) = (v :: int32)"
proof (cases "sint v = 0")
  case True
  then have "v = 0" by (simp add: signed_eq_0_iff)
  then show ?thesis by simp
next
  case False
  assume "0 \<le> sint v"
  with False have pos: "0 < sint v" by simp
  have lt: "sint v < 2 ^ 31" using sint_lt [of v] by simp
  from pos lt have "(sint v - 1) mod 2 ^ 64 = sint v - 1" by simp
  moreover from pos have "nat (sint v - 1) + 1 = nat (sint v)" by simp
  moreover from lt have "nat (sint v) mod 2 ^ 64 = nat (sint v)" by simp
  ultimately have "(nat ((sint v - 1) mod 2 ^ 64) + 1) mod 2 ^ 64 = nat (sint v)" by simp
  then have "(of_nat ((nat ((sint v - 1) mod 2 ^ 64) + 1) mod 2 ^ 64) :: int32)
      = of_nat (nat (sint v))" by simp
  also have "\<dots> = v" using pos by simp
  finally show ?thesis .
qed

lemma recursive_reconstruction_wf:
  assumes "wf_rows fill (vs, svs, nls, nrs, nds, ws)"
  shows "\<exists>node n'.
      recursive_reconstruction n (vs @ vs') (svs @ svs') (nls @ nls') (nrs @ nrs') (nds @ nds')
        (ws @ ws') = Some (node, n', vs', svs', nls', nrs', nds', ws')
    \<and> (\<forall>ti. write_node_info fill node td ti =
          ti \<lparr> ti_var_ids := ti_var_ids ti @ vs,
               ti_split_vals := ti_split_vals ti @ svs,
               ti_naLeftCounts := ti_naLeftCounts ti @ nls,
               ti_naRightCounts := ti_naRightCounts ti @ nrs,
               ti_naDefaultDirections := ti_naDefaultDirections ti @ nds,
               ti_weights := ti_weights ti @ ws \<rparr>)"
  using assms
proof (induction "(vs, svs, nls, nrs, nds, ws)" arbitrary: vs svs nls nrs nds ws n vs' svs' nls' nrs' nds' ws'
    rule: wf_rows.induct)
  case (leaf v s w)
  have smin: "sint s \<noteq> INT_MIN" using leaf(3) by (simp add: INT_MIN_def)
  show ?case
    using leaf smin
    by (simp add: recursive_reconstruction_leaf)
next
  case (split v vsL svsL nlsL nrsL ndsL wsL vsR svsR nlsR nrsR ndsR wsR sv nl nr nd)
  from split(3) [of n "vsR @ vs'" "svsR @ svs'" "nlsR @ nls'" "nrsR @ nrs'" "ndsR @ nds'"
      "wsR @ ws'"]
  obtain l n1 where
    l: "recursive_reconstruction n (vsL @ vsR @ vs') (svsL @ svsR @ svs') (nlsL @ nlsR @ nls')
          (nrsL @ nrsR @ nrs') (ndsL @ ndsR @ nds') (wsL @ wsR @ ws') =
        Some (l, n1, vsR @ vs', svsR @ svs', nlsR @ nls', nrsR @ nrs', ndsR @ nds', wsR @ ws')"
    and wl: "\<And>ti. write_node_info fill l td ti =
          ti \<lparr> ti_var_ids := ti_var_ids ti @ vsL,
               ti_split_vals := ti_split_vals ti @ svsL,
               ti_naLeftCounts := ti_naLeftCounts ti @ nlsL,
               ti_naRightCounts := ti_naRightCounts ti @ nrsL,
               ti_naDefaultDirections := ti_naDefaultDirections ti @ ndsL,
               ti_weights := ti_weights ti @ wsL \<rparr>"
    by auto
  from split(5) [of n1 vs' svs' nls' nrs' nds' ws']
  obtain r n2 where
    r: "recursive_reconstruction n1 (vsR @ vs') (svsR @ svs') (nlsR @ nls')
          (nrsR @ nrs') (ndsR @ nds') (wsR @ ws') =
        Some (r, n2, vs', svs', nls', nrs', nds', ws')"
    and wr: "\<And>ti. write_node_info fill r td ti =
          ti \<lparr> ti_var_ids := ti_var_ids ti @ vsR,
               ti_split_vals := ti_split_vals ti @ svsR,
               ti_naLeftCounts := ti_naLeftCounts ti @ nlsR,
               ti_naRightCounts := ti_naRightCounts ti @ nrsR,
               ti_naDefaultDirections := ti_naDefaultDirections ti @ ndsR,
               ti_weights := ti_weights ti @ wsR \<rparr>"
    by auto
  have nneg: "\<not> sint v < 0" using split(1) by simp
  show ?case
    using recursive_reconstruction_split [OF nneg l r, of sv nl nr nd]
      int32_of_feature [OF split(1)] int32_of_size_t [of nl] int32_of_size_t [of nr]
    by (simp add: wl wr)
qed

text \<open>
  Claim C2.  For every well-formed flat record, whatever the hyperparameters and whatever
  tree object it is rebuilt into, \<open>reconstruct_tree\<close> returns a tree, and \<open>getTreeInfo\<close>
  of that tree is the record again: node rows, 1-based sample index vectors and seed.
\<close>

theorem getTreeInfo_reconstruct_tree:
  assumes "wf_rows fill (ti_var_ids r, ti_split_vals r, ti_naLeftCounts r, ti_naRightCounts r,
             ti_naDefaultDirections r, ti_weights r)"
  shows "\<exists>t. reconstruct_tree this mtry minNodeSizeSpt minNodeSizeAvg minNodeSizeToSplitSpt
             minNodeSizeToSplitAvg minSplitGain maxDepth interactionDepth hasNas naDirection
             linearFlag overfitPenalty (ti_seed r) categoricalFeatureColsRcpp
             (ti_var_ids r) (ti_split_vals r) (ti_naLeftCounts r) (ti_naRightCounts r)
             (ti_naDefaultDirections r) (ti_averagingSampleIndex r)
             (ti_splittingSampleIndex r) (ti_weights r) = Some t
           \<and> getTreeInfo fill t trainingData = (r :: tree_info)"
proof -
  from recursive_reconstruction_wf [OF assms, of 0 "[]" "[]" "[]" "[]" "[]" "[]" trainingData]
  obtain node n' where
    rec: "recursive_reconstruction 0 (ti_var_ids r) (ti_split_vals r) (ti_naLeftCounts r)
            (ti_naRightCounts r) (ti_naDefaultDirections r) (ti_weights r) =
          Some (node, n', [], [], [], [], [], [])"
    and wr: "\<And>ti. write_node_info fill node trainingData ti =
          ti \<lparr> ti_var_ids := ti_var_ids ti @ ti_var_ids r,
               ti_split_vals := ti_split_vals ti @ ti_split_vals r,
               ti_naLeftCounts := ti_naLeftCounts ti @ ti_naLeftCounts r,
               ti_naRightCounts := ti_naRightCounts ti @ ti_naRightCounts r,
               ti_naDefaultDirections := ti_naDefaultDirections ti @ ti_naDefaultDirections r,
               ti_weights := ti_weights ti @ ti_weights r \<rparr>"
    by auto
  have idx: "map ((\<lambda>i. of_nat i + 1) \<circ> (\<lambda>i. unat (i - 1))) xs = xs" for xs :: "size_t list"
    by (induction xs) simp_all
  show ?thesis
    using rec
    by (simp add: reconstruct_tree_def getTreeInfo_def Let_def wr new_tree_info_def
        push_plus_one_eq push_minus_one_eq idx)
qed

theorem getTreeInfo_reconstruct_tree_witness:
  "wf_rows zeroFill (ti_var_ids toyRecord, ti_split_vals toyRecord, ti_naLeftCounts toyRecord,
      ti_naRightCounts toyRecord, ti_naDefaultDirections toyRecord, ti_weights toyRecord)
   \<and> (\<exists>t. reconstruct_tree sampledTree 1 1 1 1 1 (Fin 0) 2 2 True True False (Fin 0)
             (ti_seed toyRecord) [] (ti_var_ids toyRecord) (ti_split_vals toyRecord)
             (ti_naLeftCounts toyRecord) (ti_naRightCounts toyRecord)
             (ti_naDefaultDirections toyRecord) (ti_averagingSampleIndex toyRecord)
             (ti_splittingSampleIndex toyRecord) (ti_weights toyRecord) = Some t
           \<and> getTreeInfo zeroFill t toyData = toyRecord)"
proof -
  have l1: "wf_rows zeroFill ([- 2, 2], [Fin 0], [0], [0], [0], [Fin (1 / 2)])"
    using wf_rows.leaf [of "- 2" 2 zeroFill "Fin (1 / 2)"]
    by (simp add: zeroFill_def INT_MIN_def)
  have l2: "wf_rows zeroFill ([- 1, 2], [Fin 0], [0], [0], [0], [Fin 3])"
    using wf_rows.leaf [of "- 1" 2 zeroFill "Fin 3"]
    by (simp add: zeroFill_def INT_MIN_def)
  have wf: "wf_rows zeroFill (ti_var_ids toyRecord, ti_split_vals toyRecord,
      ti_naLeftCounts toyRecord, ti_naRightCounts toyRecord, ti_naDefaultDirections toyRecord,
      ti_weights toyRecord)"
    using wf_rows.split [OF _ l1 l2, of 1 "Fin 2" 1 0 "- 1"]
    by (simp add: toyRecord_def)
  from wf getTreeInfo_reconstruct_tree [OF wf] show ?thesis by blast
qed

section \<open>Properties of the tree builder\<close>

lemma sealLeaf_result:
  "sealLeaf K t avg spt td lin pen =
     (LeafNode (length avg) (length spt) (getNodeCount t + 1) (partitionMean td avg)
        (if lin then Some (setRidgeCoefficients K avg td pen) else None),
      t \<lparr> getNodeCount := getNodeCount t + 1 \<rparr>)"
  by (simp add: sealLeaf_def assignNodeId_def)

lemma recursivePartition_at_terminal:
  assumes "length averagingSampleIndex < getMinNodeSizeAvg t
         \<or> length splittingSampleIndex < getMinNodeSizeSpt t
         \<or> depth = getMaxDepth t"
  shows "recursivePartition K t averagingSampleIndex splittingSampleIndex trainingData g depth
           splitMiddle maxObs linearFlag overfitPenalty gtotal stotal monotone_splits
           monotone_details naDirection =
         Some (LeafNode (length averagingSampleIndex) (length splittingSampleIndex)
                 (getNodeCount t + 1) (partitionMean trainingData averagingSampleIndex)
                 (if linearFlag
                  then Some (setRidgeCoefficients K averagingSampleIndex trainingData
                               overfitPenalty)
                  else None),
               t \<lparr> getNodeCount := getNodeCount t + 1 \<rparr>, g)"
  using assms
  by (subst recursivePartition.simps) (simp add: sealLeaf_def assignNodeId_def)

lemma recursivePartition_cases:
  assumes "recursivePartition K t avg spt td g depth sm mo lin pen gt st ms md nad =
             Some (node, t', g')"
  obtains (leaf) "sealLeaf K t avg spt td lin pen = (node, t')"
  | (split) f v l r nl nr dir avgL avgR sptL sptR g3 t1 g4 gtl stl mdl gtr str mdr fl g1 loss
      G S g2
    where "sampleFeatures K (getMtry t) g (int (getNumColumns td)) False (getNumCols td)
             (if getInteractionDepth t \<le> depth then getdeepFeatureWeights td
              else getfeatureWeights td)
             (if getInteractionDepth t \<le> depth then getdeepFeatureWeightsVariables td
              else getfeatureWeightsVariables td) = Some (fl, g1)"
      and "selectBestFeature K t fl avg spt td g1 sm mo lin pen gt st ms md =
             ((f, v, loss, dir, G, S), g2)"
      and "splitData td avg spt f v dir [] [] [] [] 0 0 (f \<in> set (getCatCols td)) (gethasNas t) =
             (avgL, avgR, sptL, sptR, nl, nr)"
      and "node = SplitNode f v l r nl nr
             (if nad \<and> nl = 0 \<and> nr = 0 then
                (if fst (discrete_distribution K
                           [Fin (real (length avgL)), Fin (real (length avgR))]
                           (seeded_generator K (getSeed t))) = 0 then - 1 else 1)
              else dir)"
      and "recursivePartition K t avgL sptL td g3 (depth + 1) sm mo lin pen gtl stl ms mdl nad =
             Some (l, t1, g4)"
      and "recursivePartition K t1 avgR sptR td g4 (depth + 1) sm mo lin pen gtr str ms mdr nad =
             Some (r, t', g')"
      and "length avgL < length avg" and "length avgR < length avg"
      and "0 < length avgL" and "0 < length avgR" and "0 < length sptL" and "0 < length sptR"
      and "(if ms then
              updateMonotoneConstraints md (default_monotonic_info K)
                (default_monotonic_info K) (getMonotonicConstraints td)
                (partitionMean td sptL) (partitionMean td sptR) f
            else Some (default_monotonic_info K, default_monotonic_info K)) =
            Some (mdl, mdr)"
proof -
  note eq = recursivePartition.simps [of K t avg spt td g depth sm mo lin pen gt st ms md nad]
  note run = assms [unfolded eq]
  show thesis
  proof (cases "length avg < getMinNodeSizeAvg t \<or> length spt < getMinNodeSizeSpt t
                 \<or> depth = getMaxDepth t")
    case True
    with run show thesis by (intro leaf) (auto split: prod.splits)
  next
    case notTerminal: False
    with run obtain fl g1 where
      sf: "sampleFeatures K (getMtry t) g (int (getNumColumns td)) False (getNumCols td)
             (if getInteractionDepth t \<le> depth then getdeepFeatureWeights td
              else getfeatureWeights td)
             (if getInteractionDepth t \<le> depth then getdeepFeatureWeightsVariables td
              else getfeatureWeightsVariables td) = Some (fl, g1)"
      by (auto split: option.splits)
    obtain f v loss dir G S g2 where
      sel: "selectBestFeature K t fl avg spt td g1 sm mo lin pen gt st ms md =
             ((f, v, loss, dir, G, S), g2)"
      by (metis surj_pair)
    obtain avgL avgR sptL sptR nl nr where
      sd: "splitData td avg spt f v dir [] [] [] [] 0 0 (f \<in> set (getCatCols td)) (gethasNas t) =
             (avgL, avgR, sptL, sptR, nl, nr)"
      by (metis surj_pair)
    obtain below g3 where
      mg: "(if dgreater (getMinSplitGain t) (Fin 0) then
              (case crossValidatedRSquared K td spt sptL sptR pen 1 g2 of
                 (rSquaredDifference, g3) \<Rightarrow> (dless rSquaredDifference (getMinSplitGain t), g3))
            else (False, g2)) = (below, g3)"
      by (metis surj_pair)
    show thesis
    proof (cases "isnan v \<or> productIsZero (length avgL) (length avgR) (length sptL)
                                (length sptR) \<or> below")
      case True
      with run notTerminal sf sel sd mg show thesis
        by (intro leaf) (auto split: prod.splits if_splits)
    next
      case splits: False
      with run notTerminal sf sel sd mg obtain mdl mdr where
        mono: "(if ms then
                 updateMonotoneConstraints md (default_monotonic_info K)
                   (default_monotonic_info K) (getMonotonicConstraints td)
                   (partitionMean td sptL) (partitionMean td sptR) f
               else Some (default_monotonic_info K, default_monotonic_info K)) =
               Some (mdl, mdr)"
        by (auto split: option.splits if_splits)
      from run notTerminal sf sel sd mg splits mono obtain l t1 g4 where
        left: "recursivePartition K t avgL sptL td g3 (depth + 1) sm mo lin pen
                 (if lin then map_option fst G else None)
                 (if lin then map_option fst S else None) ms mdl nad = Some (l, t1, g4)"
        by (auto simp: Let_def split: option.splits)
      obtain draw gd where
        dd: "discrete_distribution K [Fin (real (length avgL)), Fin (real (length avgR))]
               (seeded_generator K (getSeed t)) = (draw, gd)"
        by (metis surj_pair)
      from run notTerminal sf sel sd mg splits mono left dd obtain r where
        right: "recursivePartition K t1 avgR sptR td g4 (depth + 1) sm mo lin pen
                 (if lin then map_option snd G else None)
                 (if lin then map_option snd S else None) ms mdr nad = Some (r, t', g')"
        and node': "node = SplitNode f v l r nl nr
             (if nad \<and> nl = 0 \<and> nr = 0 then (if draw = 0 then - 1 else 1) else dir)"
        by (auto simp: Let_def split: option.splits)
      from node' dd have node: "node = SplitNode f v l r nl nr
             (if nad \<and> nl = 0 \<and> nr = 0 then
                (if fst (discrete_distribution K
                           [Fin (real (length avgL)), Fin (real (length avgR))]
                           (seeded_generator K (getSeed t))) = 0 then - 1 else 1)
              else dir)"
        by simp
      from splits have pos: "0 < length avgL \<and> 0 < length avgR \<and> 0 < length sptL \<and> 0 < length sptR"
        using product_nonzero [of "length avgL" "length avgR" "length sptL" "length sptR"]
        by (simp del: length_greater_0_conv)
      moreover from sd have "length avgL + length avgR \<le> length avg"
        by (rule splitData_length)
      ultimately have "length avgL < length avg" and "length avgR < length avg"
        by linarith+
      with pos mono show thesis
        by (intro split [OF sf sel sd node left right]) simp_all
    qed
  qed
qed


lemma recursivePartition_split:
  assumes "\<not> (length avg < getMinNodeSizeAvg t \<or> length spt < getMinNodeSizeSpt t
               \<or> depth = getMaxDepth t)"
    and "sampleFeatures K (getMtry t) g (int (getNumColumns td)) False (getNumCols td)
             (if getInteractionDepth t \<le> depth then getdeepFeatureWeights td
              else getfeatureWeights td)
             (if getInteractionDepth t \<le> depth then getdeepFeatureWeightsVariables td
              else getfeatureWeightsVariables td) = Some (fl, g1)"
    and "selectBestFeature K t fl avg spt td g1 sm mo lin pen gt st ms md =
             ((f, v, loss, dir, G, S), g2)"
    and "\<not> isnan v"
    and "splitData td avg spt f v dir [] [] [] [] 0 0 (f \<in> set (getCatCols td)) (gethasNas t) =
             (avgL, avgR, sptL, sptR, nl, nr)"
    and "\<not> productIsZero (length avgL) (length avgR) (length sptL) (length sptR)"
    and "(if dgreater (getMinSplitGain t) (Fin 0) then
              (case crossValidatedRSquared K td spt sptL sptR pen 1 g2 of
                 (rSquaredDifference, g3) \<Rightarrow> (dless rSquaredDifference (getMinSplitGain t), g3))
            else (False, g2)) = (False, g3)"
    and "(if ms then
                 updateMonotoneConstraints md (default_monotonic_info K)
                   (default_monotonic_info K) (getMonotonicConstraints td)
                   (partitionMean td sptL) (partitionMean td sptR) f
               else Some (default_monotonic_info K, default_monotonic_info K)) =
               Some (mdl, mdr)"
    and "recursivePartition K t avgL sptL td g3 (depth + 1) sm mo lin pen
                 (if lin then map_option fst G else None)
                 (if lin then map_option fst S else None) ms mdl nad = Some (l, t1, g4)"
    and "recursivePartition K t1 avgR sptR td g4 (depth + 1) sm mo lin pen
                 (if lin then map_option snd G else None)
                 (if lin then map_option snd S else None) ms mdr nad = Some (r, t2, g5)"
  shows "recursivePartition K t avg spt td g depth sm mo lin pen gt st ms md nad =
           Some (SplitNode f v l r nl nr
                   (if nad \<and> nl = 0 \<and> nr = 0 then
                      (if fst (discrete_distribution K
                                 [Fin (real (length avgL)), Fin (real (length avgR))]
                                 (seeded_generator K (getSeed t))) = 0 then - 1 else 1)
                    else dir),
                 t2, g5)"
proof -
  obtain draw gd where
    dd: "discrete_distribution K [Fin (real (length avgL)), Fin (real (length avgR))]
           (seeded_generator K (getSeed t)) = (draw, gd)"
    by (metis surj_pair)
  show ?thesis
    using assms(1,4,6)
    by (subst recursivePartition.simps)
      (simp add: assms(2,3,5,7,8,9,10) dd Let_def del: One_nat_def)
qed

lemma toy_sampleFeatures:
  "sampleFeatures toyK 1 g 1 False [0] [Fin 1] [0] = Some ([0], g + 1)"
  by (simp add: sampleFeatures_def sampleLoop.simps toyK_def)

lemma toy_selectBestFeature:
  "selectBestFeature toyK t [0] avg spt toyData g sm mo False pen gt st ms md =
     ((0, Fin 2, Fin 1, - 1, None, None), g + 1)"
  by (simp add: selectBestFeature_def toyK_def toyData_def)

lemma toy_splitData:
  "splitData toyData [0, 1, 2, 3] [0, 1, 2, 3] 0 (Fin 2) (- 1) [] [] [] [] 0 0 False False =
     ([0], [1, 2, 3], [0], [1, 2, 3], 0, 0)"
  by (simp add: splitData_def splitDataIntoTwoParts_def toyData_def)

lemma toy_root_call:
  "recursivePartition toyK freshTree [0, 1, 2, 3] [0, 1, 2, 3] toyData 0 0 False 10 False
     (Fin 0) None None False rootDetails True =
   Some (SplitNode 0 (Fin 2) (LeafNode 1 1 1 (Fin 0) None) (LeafNode 3 3 2 (Fin 2) None)
           0 0 (- 1),
         freshTree \<lparr> getNodeCount := 2 \<rparr>, 2)"
proof -
  let ?md = "default_monotonic_info toyK"
  have left: "recursivePartition toyK freshTree [0] [0] toyData 2 (0 + 1) False 10 False
                 (Fin 0) None None False ?md True =
              Some (LeafNode 1 1 1 (Fin 0) None, freshTree \<lparr> getNodeCount := 1 \<rparr>, 2)"
    by (subst recursivePartition_at_terminal) (simp_all add: toyData_def freshTree_def)
  have right: "recursivePartition toyK (freshTree \<lparr> getNodeCount := 1 \<rparr>) [1, 2, 3] [1, 2, 3]
                  toyData 2 (0 + 1) False 10 False (Fin 0) None None False ?md True =
              Some (LeafNode 3 3 2 (Fin 2) None, freshTree \<lparr> getNodeCount := 2 \<rparr>, 2)"
    by (subst recursivePartition_at_terminal) (simp_all add: toyData_def freshTree_def)
  show ?thesis
    using recursivePartition_split [of "[0, 1, 2, 3]" freshTree "[0, 1, 2, 3]" 0 toyK 0 toyData
        "[0]" 1 False 10 False "Fin 0" None None False rootDetails 0 "Fin 2" "Fin 1" "- 1"
        None None 2 "[0]" "[1, 2, 3]" "[0]" "[1, 2, 3]" 0 0 2 ?md ?md True
        "LeafNode 1 1 1 (Fin 0) None" "freshTree \<lparr> getNodeCount := 1 \<rparr>" 2
        "LeafNode 3 3 2 (Fin 2) None" "freshTree \<lparr> getNodeCount := 2 \<rparr>" 2]
      left right toy_sampleFeatures [of 0] toy_selectBestFeature [of freshTree _ _ 1]
      toy_splitData
    by (simp add: toyData_def productIsZero_def SIZE_MOD_def dgreater_def toyK_def
        freshTree_def)
qed

lemma toy_run:
  "forestryTree_constructor toyK sampledTree toyData 1 1 1 1 1 (Fin 0) 1 5 [0, 1, 2, 3]
     [0, 1, 2, 3] 0 False 10 False True False (Fin 0) 42 = Inr (Some (grownTree, 2))"
proof -
  have "default_monotonic_info toyK
          \<lparr> monotonic_constraints := [0], upper_bound := Fin DBL_MAX,
            lower_bound := Fin (- DBL_MAX), monotoneAvg := False \<rparr> = rootDetails"
    by (simp add: toyK_def rootDetails_def)
  with toy_root_call show ?thesis
    by (simp add: forestryTree_constructor_def Let_def toyData_def dneq_def grownTree_def
        freshTree_def sampledTree_def)
qed

text \<open>
  Claim C5.  A call of \<open>recursivePartition\<close> whose averaging set is smaller than
  \<open>minNodeSizeAvg\<close>, or whose splitting set is smaller than \<open>minNodeSizeSpt\<close>, or
  whose depth is \<open>maxDepth\<close>, returns a leaf: its weight is the partition mean of the
  averaging set, its two counts are the sizes of the two sets, and its ridge coefficients
  are fitted on the averaging set when the tree is linear.  No split search takes place:
  the generator comes back as it was handed in, and of the collaborators only the ridge fit
  appears in the result.
\<close>

theorem recursivePartition_terminal:
  assumes "length averagingSampleIndex < getMinNodeSizeAvg t
         \<or> length splittingSampleIndex < getMinNodeSizeSpt t
         \<or> depth = getMaxDepth t"
  shows "recursivePartition K t averagingSampleIndex splittingSampleIndex trainingData g depth
           splitMiddle maxObs linearFlag overfitPenalty gtotal stotal monotone_splits
           monotone_details naDirection =
         Some (LeafNode (length averagingSampleIndex) (length splittingSampleIndex)
                 (getNodeCount t + 1) (partitionMean trainingData averagingSampleIndex)
                 (if linearFlag
                  then Some (setRidgeCoefficients K averagingSampleIndex trainingData
                               overfitPenalty)
                  else None),
               t \<lparr> getNodeCount := getNodeCount t + 1 \<rparr>, g)"
  using assms by (rule recursivePartition_at_terminal)

theorem recursivePartition_terminal_witness:
  "1 = getMaxDepth freshTree
   \<and> recursivePartition toyK freshTree [1, 2, 3] [0, 1] toyData 7 1 False 10 True (Fin 0)
        None None False rootDetails True =
      Some (LeafNode 3 2 1 (Fin 2) (Some []), freshTree \<lparr> getNodeCount := 1 \<rparr>, 7)"
proof -
  have d: "1 = getMaxDepth freshTree" by (simp add: freshTree_def)
  then have "length [1, 2, 3 :: nat] < getMinNodeSizeAvg freshTree
         \<or> length [0, 1 :: nat] < getMinNodeSizeSpt freshTree
         \<or> 1 = getMaxDepth freshTree" by simp
  from recursivePartition_terminal [OF this, of toyK toyData 7 False 10 True "Fin 0" None None
      False rootDetails True] d
  show ?thesis by (simp add: toyData_def toyK_def freshTree_def)
qed

text \<open>
  Claim C1.  The constructor throws exactly when one of the listed conditions holds at
  entry.  The error is decided before anything is built: it is the same whatever the
  collaborators, the generator, the object, the data (but its number of columns) and the
  remaining parameters are.  Otherwise the result is that of growing the tree.
\<close>

theorem constructor_sanity_check:
  "((\<exists>e. forestryTree_constructor K raw trainingData mtry minNodeSizeSpt minNodeSizeAvg
       minNodeSizeToSplitSpt minNodeSizeToSplitAvg minSplitGain maxDepth interactionDepth
       splittingSampleIndex averagingSampleIndex random_number_generator splitMiddle maxObs
       hasNas naDirection linearFlag overfitPenalty seed = Inl e)
    \<longleftrightarrow>
      (minNodeSizeAvg = 0 \<or> minNodeSizeSpt = 0 \<or> minNodeSizeToSplitSpt = 0
       \<or> minNodeSizeToSplitAvg = 0
       \<or> length averagingSampleIndex < minNodeSizeToSplitAvg
       \<or> length splittingSampleIndex < minNodeSizeToSplitSpt
       \<or> maxDepth = 0
       \<or> (dneq minSplitGain (Fin 0) \<and> \<not> linearFlag)
       \<or> averagingSampleIndex = [] \<or> splittingSampleIndex = []
       \<or> mtry = 0 \<or> getNumColumns trainingData < mtry))
   \<and> (\<forall>e. forestryTree_constructor K raw trainingData mtry minNodeSizeSpt minNodeSizeAvg
       minNodeSizeToSplitSpt minNodeSizeToSplitAvg minSplitGain maxDepth interactionDepth
       splittingSampleIndex averagingSampleIndex random_number_generator splitMiddle maxObs
       hasNas naDirection linearFlag overfitPenalty seed = Inl e \<longrightarrow>
         forestryTree_constructor K' raw' (trainingData' \<lparr> getNumColumns := getNumColumns trainingData \<rparr>)
           mtry minNodeSizeSpt minNodeSizeAvg
           minNodeSizeToSplitSpt minNodeSizeToSplitAvg minSplitGain maxDepth interactionDepth
           splittingSampleIndex averagingSampleIndex random_number_generator' splitMiddle'
           maxObs' hasNas' naDirection' linearFlag overfitPenalty' seed' = Inl e)"
proof (intro conjI allI impI)
  show "(\<exists>e. forestryTree_constructor K raw trainingData mtry minNodeSizeSpt minNodeSizeAvg
       minNodeSizeToSplitSpt minNodeSizeToSplitAvg minSplitGain maxDepth interactionDepth
       splittingSampleIndex averagingSampleIndex random_number_generator splitMiddle maxObs
       hasNas naDirection linearFlag overfitPenalty seed = Inl e)
    \<longleftrightarrow>
      (minNodeSizeAvg = 0 \<or> minNodeSizeSpt = 0 \<or> minNodeSizeToSplitSpt = 0
       \<or> minNodeSizeToSplitAvg = 0
       \<or> length averagingSampleIndex < minNodeSizeToSplitAvg
       \<or> length splittingSampleIndex < minNodeSizeToSplitSpt
       \<or> maxDepth = 0
       \<or> (dneq minSplitGain (Fin 0) \<and> \<not> linearFlag)
       \<or> averagingSampleIndex = [] \<or> splittingSampleIndex = []
       \<or> mtry = 0 \<or> getNumColumns trainingData < mtry)"
    by (simp add: forestryTree_constructor_def Let_def)
next
  fix e
  assume "forestryTree_constructor K raw trainingData mtry minNodeSizeSpt minNodeSizeAvg
       minNodeSizeToSplitSpt minNodeSizeToSplitAvg minSplitGain maxDepth interactionDepth
       splittingSampleIndex averagingSampleIndex random_number_generator splitMiddle maxObs
       hasNas naDirection linearFlag overfitPenalty seed = Inl e"
  then show "forestryTree_constructor K' raw' (trainingData' \<lparr> getNumColumns := getNumColumns trainingData \<rparr>)
           mtry minNodeSizeSpt minNodeSizeAvg
           minNodeSizeToSplitSpt minNodeSizeToSplitAvg minSplitGain maxDepth interactionDepth
           splittingSampleIndex averagingSampleIndex random_number_generator' splitMiddle'
           maxObs' hasNas' naDirection' linearFlag overfitPenalty' seed' = Inl e"
    by (auto simp: forestryTree_constructor_def Let_def split: if_splits)
qed

theorem constructor_sanity_check_witness:
  "(\<exists>e. forestryTree_constructor toyK sampledTree toyData 0 1 1 1 1 (Fin 0) 1 5 [0, 1, 2, 3]
          [0, 1, 2, 3] 0 False 10 False True False (Fin 0) 42 = Inl e)
   \<and> forestryTree_constructor toyK sampledTree toyData 0 1 1 1 1 (Fin 0) 1 5 [0, 1, 2, 3]
          [0, 1, 2, 3] 0 False 10 False True False (Fin 0) 42 = Inl MtryZero
   \<and> forestryTree_constructor toyK grownTree (toyData \<lparr> getNumColumns := getNumColumns toyData \<rparr>)
          0 1 1 1 1 (Fin 0) 1 5 [0, 1, 2, 3]
          [0, 1, 2, 3] 9 True 3 True False False (Fin 1) 7 = Inl MtryZero"
proof -
  have e: "forestryTree_constructor toyK sampledTree toyData 0 1 1 1 1 (Fin 0) 1 5 [0, 1, 2, 3]
          [0, 1, 2, 3] 0 False 10 False True False (Fin 0) 42 = Inl MtryZero"
    by (simp add: forestryTree_constructor_def dneq_def)
  from constructor_sanity_check [of toyK sampledTree toyData 0 1 1 1 1 "Fin 0" 1 5
      "[0, 1, 2, 3]" "[0, 1, 2, 3]" 0 False 10 False True False "Fin 0" 42
      toyK grownTree toyData 9 True 3 True False "Fin 1" 7] e
  show ?thesis by blast
qed

lemma recursivePartition_ids:
  assumes "recursivePartition K t avg spt td g depth sm mo lin pen gt st ms md nad =
             Some (node, t', g')"
  shows "leafIds node = [getNodeCount t + 1 ..< getNodeCount t' + 1]
       \<and> getNodeCount t < getNodeCount t'
       \<and> t' = t \<lparr> getNodeCount := getNodeCount t' \<rparr>"
  using assms
proof (induction "length avg" arbitrary: avg spt t g depth gt st md node t' g'
    rule: less_induct)
  case less
  from less.prems show ?case
  proof (cases rule: recursivePartition_cases)
    case leaf
    then show ?thesis by (auto simp: sealLeaf_result)
  next
    case (split f v l r nl nr dir avgL avgR sptL sptR g3 t1 g4 gtl stl mdl gtr str mdr)
    from less.hyps [OF split(7) split(5)] have
      l: "leafIds l = [getNodeCount t + 1 ..< getNodeCount t1 + 1]"
      and lc: "getNodeCount t < getNodeCount t1"
      and lt: "t1 = t \<lparr> getNodeCount := getNodeCount t1 \<rparr>"
      by simp_all
    from less.hyps [OF split(8) split(6)] have
      r: "leafIds r = [getNodeCount t1 + 1 ..< getNodeCount t' + 1]"
      and rc: "getNodeCount t1 < getNodeCount t'"
      and rt: "t' = t1 \<lparr> getNodeCount := getNodeCount t' \<rparr>"
      by simp_all
    have "[getNodeCount t + 1 ..< getNodeCount t1 + 1] @ [getNodeCount t1 + 1 ..< getNodeCount t' + 1]
        = [getNodeCount t + 1 ..< getNodeCount t' + 1]"
      using lc rc upt_add_eq_append [of "getNodeCount t + 1" "getNodeCount t1 + 1"
          "getNodeCount t' - getNodeCount t1"]
      by simp
    moreover have "t' = t \<lparr> getNodeCount := getNodeCount t' \<rparr>"
      by (subst rt, subst lt) simp
    ultimately show ?thesis using split(4) l r lc rc by simp
  qed
qed

text \<open>
  Claim C9, amended.  Ids are given out by the counter of the tree, to leaves only: in
  every tree the constructor returns, the ids of the leaves, read from left to right, are
  1, 2, ... up to the node count of the tree, so they are unique and dense, and the node
  count is the number of leaves.  A split node is given no id.
\<close>

theorem constructor_leaf_ids:
  assumes "forestryTree_constructor K raw trainingData mtry minNodeSizeSpt minNodeSizeAvg
     minNodeSizeToSplitSpt minNodeSizeToSplitAvg minSplitGain maxDepth interactionDepth
     splittingSampleIndex averagingSampleIndex random_number_generator splitMiddle maxObs
     hasNas naDirection linearFlag overfitPenalty seed = Inr (Some (t, g'))"
  shows "leafIds (getRoot t) = [1 ..< getNodeCount t + 1]"
  using assms
  by (auto simp: forestryTree_constructor_def Let_def split: if_splits option.splits
      dest!: recursivePartition_ids)

theorem constructor_leaf_ids_witness:
  "forestryTree_constructor toyK sampledTree toyData 1 1 1 1 1 (Fin 0) 1 5 [0, 1, 2, 3]
     [0, 1, 2, 3] 0 False 10 False True False (Fin 0) 42 = Inr (Some (grownTree, 2))
   \<and> leafIds (getRoot grownTree) = [1 ..< getNodeCount grownTree + 1]"
  using constructor_leaf_ids [OF toy_run] toy_run by simp

text \<open>
  The claim as stated gives every node, leaf or split, an id between 1 and the node count.
  The tree grown on the small data set has three nodes, a split and two leaves; the
  counter has given out the ids 1 and 2 and stands at 2.
\<close>

theorem split_node_without_id_counterexample:
  "forestryTree_constructor toyK sampledTree toyData 1 1 1 1 1 (Fin 0) 1 5 [0, 1, 2, 3]
     [0, 1, 2, 3] 0 False 10 False True False (Fin 0) 42 = Inr (Some (grownTree, 2))
   \<and> countNodes (getRoot grownTree) = 3
   \<and> leafIds (getRoot grownTree) = [1, 2]
   \<and> getNodeCount grownTree = 2"
  using toy_run by (simp add: grownTree_def)

lemma selectLoop_getLinear:
  "selectLoop K (t \<lparr> getLinear := b \<rparr>) avg spt td sm mo lin pen gt st ms md i fl bests g =
   selectLoop K t avg spt td sm mo lin pen gt st ms md i fl bests g"
  by (induction fl arbitrary: i bests g) (simp_all cong: prod.case_cong if_cong)

lemma selectBestFeature_getLinear:
  "selectBestFeature K (t \<lparr> getLinear := b \<rparr>) fl avg spt td g sm mo lin pen gt st ms md =
   selectBestFeature K t fl avg spt td g sm mo lin pen gt st ms md"
  by (simp add: selectBestFeature_def selectLoop_getLinear)

lemma recursivePartition_getLinear:
  "recursivePartition K (t \<lparr> getLinear := b \<rparr>) avg spt td g depth sm mo lin pen gt st ms md nad =
   map_option (\<lambda>(node, t', g'). (node, t' \<lparr> getLinear := b \<rparr>, g'))
     (recursivePartition K t avg spt td g depth sm mo lin pen gt st ms md nad)"
proof (induction "length avg" arbitrary: avg spt t g depth gt st md rule: less_induct)
  case less
  let ?tb = "t \<lparr> getLinear := b \<rparr>"
  note eqb = recursivePartition.simps [of K ?tb avg spt td g depth sm mo lin pen gt st ms md nad]
  note eq = recursivePartition.simps [of K t avg spt td g depth sm mo lin pen gt st ms md nad]
  show ?case
  proof (cases "length avg < getMinNodeSizeAvg t \<or> length spt < getMinNodeSizeSpt t
                 \<or> depth = getMaxDepth t")
    case True
    then show ?thesis by (simp add: recursivePartition_at_terminal)
  next
    case notTerminal: False
    show ?thesis
    proof (cases "sampleFeatures K (getMtry t) g (int (getNumColumns td)) False (getNumCols td)
             (if getInteractionDepth t \<le> depth then getdeepFeatureWeights td
              else getfeatureWeights td)
             (if getInteractionDepth t \<le> depth then getdeepFeatureWeightsVariables td
              else getfeatureWeightsVariables td)")
      case None
      show ?thesis
        using notTerminal
        by (subst eqb, subst eq) (simp add: None split del: if_split)
    next
      case (Some p)
      obtain fl g1 where p: "p = (fl, g1)" by (cases p)
      note sf = Some [unfolded p]
      obtain f v loss dir G S g2 where
        sel: "selectBestFeature K t fl avg spt td g1 sm mo lin pen gt st ms md =
               ((f, v, loss, dir, G, S), g2)"
        by (metis surj_pair)
      obtain avgL avgR sptL sptR nl nr where
        sd: "splitData td avg spt f v dir [] [] [] [] 0 0 (f \<in> set (getCatCols td)) (gethasNas t) =
               (avgL, avgR, sptL, sptR, nl, nr)"
        by (metis surj_pair)
      obtain below g3 where
        mg: "(if dgreater (getMinSplitGain t) (Fin 0) then
                (case crossValidatedRSquared K td spt sptL sptR pen 1 g2 of
                   (rSquaredDifference, g3) \<Rightarrow> (dless rSquaredDifference (getMinSplitGain t), g3))
              else (False, g2)) = (below, g3)"
        by (metis surj_pair)
      consider (nan) "isnan v"
        | (empty) "\<not> isnan v"
            "productIsZero (length avgL) (length avgR) (length sptL) (length sptR)"
        | (gain) "\<not> isnan v"
            "\<not> productIsZero (length avgL) (length avgR) (length sptL) (length sptR)" "below"
        | (goesOn) "\<not> isnan v"
            "\<not> productIsZero (length avgL) (length avgR) (length sptL) (length sptR)"
            "\<not> below"
        by blast
      then show ?thesis
      proof cases
        case nan
        with notTerminal show ?thesis
          by (subst eqb, subst eq)
            (simp add: sf sel selectBestFeature_getLinear sealLeaf_result
              del: One_nat_def split del: if_split cong: if_cong prod.case_cong)
      next
        case empty
        with notTerminal show ?thesis
          by (subst eqb, subst eq)
            (simp add: sf sel sd selectBestFeature_getLinear sealLeaf_result
              del: One_nat_def split del: if_split cong: if_cong prod.case_cong)
      next
        case gain
        with notTerminal show ?thesis
          by (subst eqb, subst eq)
            (simp add: sf sel sd mg selectBestFeature_getLinear sealLeaf_result
              del: One_nat_def split del: if_split cong: if_cong prod.case_cong)
      next
        case goesOn
        obtain draw gd where
          dd: "discrete_distribution K [Fin (real (length avgL)), Fin (real (length avgR))]
                 (seeded_generator K (getSeed t)) = (draw, gd)"
          by (metis surj_pair)
        from goesOn(2) have pos: "0 < length avgL \<and> 0 < length avgR"
          using product_nonzero [of "length avgL" "length avgR" "length sptL" "length sptR"]
          by (simp del: length_greater_0_conv)
        moreover from sd have "length avgL + length avgR \<le> length avg"
          by (rule splitData_length)
        ultimately have smaller: "length avgL < length avg" "length avgR < length avg"
          by linarith+
        show ?thesis
        proof (cases "if ms then
                   updateMonotoneConstraints md (default_monotonic_info K)
                     (default_monotonic_info K) (getMonotonicConstraints td)
                     (partitionMean td sptL) (partitionMean td sptR) f
                 else Some (default_monotonic_info K, default_monotonic_info K)")
          case None
          with notTerminal goesOn show ?thesis
            by (subst eqb, subst eq)
              (simp add: sf sel sd mg None selectBestFeature_getLinear
                del: One_nat_def split del: if_split cong: if_cong prod.case_cong)
        next
          case (Some q)
          obtain mdl mdr where q: "q = (mdl, mdr)" by (cases q)
          note mono = Some [unfolded q]
          note IHl = less.hyps [OF smaller(1), of t sptL g3 "depth + 1"
              "if lin then map_option fst G else None"
              "if lin then map_option fst S else None" mdl]
          show ?thesis
          proof (cases "recursivePartition K t avgL sptL td g3 (depth + 1) sm mo lin pen
                 (if lin then map_option fst G else None)
                 (if lin then map_option fst S else None) ms mdl nad")
            case None
            with notTerminal goesOn show ?thesis
              by (subst eqb, subst eq)
                (simp add: sf sel sd mg mono IHl None dd selectBestFeature_getLinear Let_def
                  del: One_nat_def split del: if_split cong: if_cong prod.case_cong)
          next
            case (Some lres)
            obtain l t1 g4 where lres: "lres = (l, t1, g4)" by (cases lres)
            note left = Some [unfolded lres]
            note IHr = less.hyps [OF smaller(2), of t1 sptR g4 "depth + 1"
                "if lin then map_option snd G else None"
                "if lin then map_option snd S else None" mdr]
            from notTerminal goesOn show ?thesis
              by (subst eqb, subst eq)
                (simp add: sf sel sd mg mono IHl left IHr dd selectBestFeature_getLinear
                  Let_def del: One_nat_def split del: if_split split: option.splits
                  cong: if_cong prod.case_cong)
          qed
        qed
      qed
    qed
  qed
qed


lemma getTreeInfo_getLinear:
  "getTreeInfo fill (t \<lparr> getLinear := b \<rparr>) td = getTreeInfo fill t td"
  by (simp add: getTreeInfo_def)

lemma constructor_raw:
  "forestryTree_constructor K raw' trainingData mtry minNodeSizeSpt minNodeSizeAvg
       minNodeSizeToSplitSpt minNodeSizeToSplitAvg minSplitGain maxDepth interactionDepth
       splittingSampleIndex averagingSampleIndex random_number_generator splitMiddle maxObs
       hasNas naDirection linearFlag overfitPenalty seed =
     map_sum id (map_option (\<lambda>(t, g'). (t \<lparr> getLinear := getLinear raw' \<rparr>, g')))
       (forestryTree_constructor K raw trainingData mtry minNodeSizeSpt minNodeSizeAvg
          minNodeSizeToSplitSpt minNodeSizeToSplitAvg minSplitGain maxDepth interactionDepth
          splittingSampleIndex averagingSampleIndex random_number_generator splitMiddle maxObs
          hasNas naDirection linearFlag overfitPenalty seed)"
proof -
  let ?t0 = "\<lambda>raw. raw
               \<lparr> getMtry := mtry,
                 getMinNodeSizeAvg := minNodeSizeAvg,
                 getMinNodeSizeSpt := minNodeSizeSpt,
                 getMinNodeSizeToSplitAvg := minNodeSizeToSplitAvg,
                 getMinNodeSizeToSplitSpt := minNodeSizeToSplitSpt,
                 getMinSplitGain := minSplitGain,
                 gethasNas := hasNas,
                 getNaDirection := naDirection,
                 getMaxDepth := maxDepth,
                 getInteractionDepth := interactionDepth,
                 getAveragingIndex := averagingSampleIndex,
                 getSplittingIndex := splittingSampleIndex,
                 getOverfitPenalty := overfitPenalty,
                 getRoot := FreshNode,
                 getNodeCount := 0,
                 getSeed := seed \<rparr>"
  have t0: "?t0 raw' = (?t0 raw) \<lparr> getLinear := getLinear raw' \<rparr>"
    by (cases raw, cases raw') simp
  show ?thesis
    unfolding forestryTree_constructor_def Let_def t0
    by (simp add: recursivePartition_getLinear split: option.splits)
qed

lemma flat_record_ignores_getLinear:
  "map_sum id (map_option (\<lambda>(t, g'). (getTreeInfo fill t td, g')))
     (map_sum id (map_option (\<lambda>(t, g'). (t \<lparr> getLinear := b \<rparr>, g'))) x) =
   map_sum id (map_option (\<lambda>(t, g'). (getTreeInfo fill t td, g'))) x"
proof (cases x)
  case (Inl e)
  then show ?thesis by simp
next
  case (Inr r)
  then show ?thesis by (cases r) (auto simp: getTreeInfo_getLinear)
qed

text \<open>
  Claim C4.  The collaborators being functions of their arguments and of the generator
  state, what can differ between two runs of the constructor on the same arguments is the
  memory of the object before construction (\<open>raw\<close>), of which the constructor leaves the
  member \<open>_linear\<close> unassigned.  The two runs throw the same error, or both have no
  result, or return the same generator state and trees that differ at most in that
  unassigned member, hence trees with the same flat record.  On the
  NA-direction path, where the split node has no NA on either side, the stored direction
  is the draw of a generator seeded with the seed of the tree from a distribution over the
  sizes of the two averaging partitions: it does not depend on the generator handed to
  \<open>recursivePartition\<close>.
\<close>

theorem constructor_deterministic:
  "forestryTree_constructor K raw' trainingData mtry minNodeSizeSpt minNodeSizeAvg
       minNodeSizeToSplitSpt minNodeSizeToSplitAvg minSplitGain maxDepth interactionDepth
       splittingSampleIndex averagingSampleIndex random_number_generator splitMiddle maxObs
       hasNas naDirection linearFlag overfitPenalty seed =
     map_sum id (map_option (\<lambda>(t, g'). (t \<lparr> getLinear := getLinear raw' \<rparr>, g')))
       (forestryTree_constructor K raw trainingData mtry minNodeSizeSpt minNodeSizeAvg
          minNodeSizeToSplitSpt minNodeSizeToSplitAvg minSplitGain maxDepth interactionDepth
          splittingSampleIndex averagingSampleIndex random_number_generator splitMiddle maxObs
          hasNas naDirection linearFlag overfitPenalty seed)
   \<and> map_sum id (map_option (\<lambda>(t, g'). (getTreeInfo fill t trainingData, g')))
     (forestryTree_constructor K raw trainingData mtry minNodeSizeSpt minNodeSizeAvg
        minNodeSizeToSplitSpt minNodeSizeToSplitAvg minSplitGain maxDepth interactionDepth
        splittingSampleIndex averagingSampleIndex random_number_generator splitMiddle maxObs
        hasNas naDirection linearFlag overfitPenalty seed) =
   map_sum id (map_option (\<lambda>(t, g'). (getTreeInfo fill t trainingData, g')))
     (forestryTree_constructor K raw' trainingData mtry minNodeSizeSpt minNodeSizeAvg
        minNodeSizeToSplitSpt minNodeSizeToSplitAvg minSplitGain maxDepth interactionDepth
        splittingSampleIndex averagingSampleIndex random_number_generator splitMiddle maxObs
        hasNas naDirection linearFlag overfitPenalty seed)
   \<and> (\<forall>f v l r nd t' g'.
        recursivePartition K t avg spt td g depth sm mo lin pen gt st ms md True =
          Some (SplitNode f v l r 0 0 nd, t', g') \<longrightarrow>
        (\<exists>dir avgL avgR sptL sptR.
           splitData td avg spt f v dir [] [] [] [] 0 0 (f \<in> set (getCatCols td)) (gethasNas t) =
             (avgL, avgR, sptL, sptR, 0, 0)
         \<and> nd = (if fst (discrete_distribution K
                           [Fin (real (length avgL)), Fin (real (length avgR))]
                           (seeded_generator K (getSeed t))) = 0 then - 1 else 1)))"
proof (intro conjI allI impI)
  show "forestryTree_constructor K raw' trainingData mtry minNodeSizeSpt minNodeSizeAvg
       minNodeSizeToSplitSpt minNodeSizeToSplitAvg minSplitGain maxDepth interactionDepth
       splittingSampleIndex averagingSampleIndex random_number_generator splitMiddle maxObs
       hasNas naDirection linearFlag overfitPenalty seed =
     map_sum id (map_option (\<lambda>(t, g'). (t \<lparr> getLinear := getLinear raw' \<rparr>, g')))
       (forestryTree_constructor K raw trainingData mtry minNodeSizeSpt minNodeSizeAvg
          minNodeSizeToSplitSpt minNodeSizeToSplitAvg minSplitGain maxDepth interactionDepth
          splittingSampleIndex averagingSampleIndex random_number_generator splitMiddle maxObs
          hasNas naDirection linearFlag overfitPenalty seed)"
    by (rule constructor_raw)
next
  show "map_sum id (map_option (\<lambda>(t, g'). (getTreeInfo fill t trainingData, g')))
     (forestryTree_constructor K raw trainingData mtry minNodeSizeSpt minNodeSizeAvg
        minNodeSizeToSplitSpt minNodeSizeToSplitAvg minSplitGain maxDepth interactionDepth
        splittingSampleIndex averagingSampleIndex random_number_generator splitMiddle maxObs
        hasNas naDirection linearFlag overfitPenalty seed) =
   map_sum id (map_option (\<lambda>(t, g'). (getTreeInfo fill t trainingData, g')))
     (forestryTree_constructor K raw' trainingData mtry minNodeSizeSpt minNodeSizeAvg
        minNodeSizeToSplitSpt minNodeSizeToSplitAvg minSplitGain maxDepth interactionDepth
        splittingSampleIndex averagingSampleIndex random_number_generator splitMiddle maxObs
        hasNas naDirection linearFlag overfitPenalty seed)"
    by (subst constructor_raw [where raw' = raw' and raw = raw])
      (simp only: flat_record_ignores_getLinear)
next
  fix f v l r nd t' g'
  assume "recursivePartition K t avg spt td g depth sm mo lin pen gt st ms md True =
          Some (SplitNode f v l r 0 0 nd, t', g')"
  then show "\<exists>dir avgL avgR sptL sptR.
           splitData td avg spt f v dir [] [] [] [] 0 0 (f \<in> set (getCatCols td)) (gethasNas t) =
             (avgL, avgR, sptL, sptR, 0, 0)
         \<and> nd = (if fst (discrete_distribution K
                           [Fin (real (length avgL)), Fin (real (length avgR))]
                           (seeded_generator K (getSeed t))) = 0 then - 1 else 1)"
  proof (cases rule: recursivePartition_cases)
    case leaf
    then show ?thesis by (simp add: sealLeaf_result)
  next
    case (split f' v' l' r' nl nr dir avgL avgR sptL sptR)
    from split(4) have same: "f' = f" "v' = v" "nl = 0" "nr = 0" by simp_all
    with split(4) have "nd = (if fst (discrete_distribution K
                           [Fin (real (length avgL)), Fin (real (length avgR))]
                           (seeded_generator K (getSeed t))) = 0 then - 1 else 1)"
      by simp
    moreover from split(3) same have
      "splitData td avg spt f v dir [] [] [] [] 0 0 (f \<in> set (getCatCols td)) (gethasNas t) =
         (avgL, avgR, sptL, sptR, 0, 0)"
      by simp
    ultimately show ?thesis by blast
  qed
qed

theorem constructor_deterministic_witness:
  "forestryTree_constructor toyK (sampledTree \<lparr> getLinear := True \<rparr>) toyData 1 1 1 1 1 (Fin 0)
        1 5 [0, 1, 2, 3] [0, 1, 2, 3] 0 False 10 False True False (Fin 0) 42 =
     Inr (Some (grownTree \<lparr> getLinear := True \<rparr>, 2))
   \<and> map_sum id (map_option (\<lambda>(t, g'). (getTreeInfo zeroFill t toyData, g')))
     (forestryTree_constructor toyK sampledTree toyData 1 1 1 1 1 (Fin 0) 1 5 [0, 1, 2, 3]
        [0, 1, 2, 3] 0 False 10 False True False (Fin 0) 42) =
   map_sum id (map_option (\<lambda>(t, g'). (getTreeInfo zeroFill t toyData, g')))
     (forestryTree_constructor toyK (sampledTree \<lparr> getLinear := True \<rparr>) toyData 1 1 1 1 1 (Fin 0)
        1 5 [0, 1, 2, 3] [0, 1, 2, 3] 0 False 10 False True False (Fin 0) 42)
   \<and> (\<exists>dir avgL avgR sptL sptR.
         splitData toyData [0, 1, 2, 3] [0, 1, 2, 3] 0 (Fin 2) dir [] [] [] [] 0 0
           (0 \<in> set (getCatCols toyData)) (gethasNas freshTree) =
           (avgL, avgR, sptL, sptR, 0, 0)
       \<and> (- 1 :: int) = (if fst (discrete_distribution toyK
                           [Fin (real (length avgL)), Fin (real (length avgR))]
                           (seeded_generator toyK (getSeed freshTree))) = 0 then - 1 else 1))"
proof -
  note inst = constructor_deterministic [of toyK "sampledTree \<lparr> getLinear := True \<rparr>" toyData
      1 1 1 1 1 "Fin 0" 1 5 "[0, 1, 2, 3]" "[0, 1, 2, 3]" 0 False 10 False True False "Fin 0" 42
      sampledTree zeroFill freshTree "[0, 1, 2, 3]" "[0, 1, 2, 3]" toyData 0 0
      False 10 False "Fin 0" None None False rootDetails]
  from inst [THEN conjunct1] toy_run have
    "forestryTree_constructor toyK (sampledTree \<lparr> getLinear := True \<rparr>) toyData 1 1 1 1 1 (Fin 0)
        1 5 [0, 1, 2, 3] [0, 1, 2, 3] 0 False 10 False True False (Fin 0) 42 =
     Inr (Some (grownTree \<lparr> getLinear := True \<rparr>, 2))"
    by simp
  with inst toy_root_call show ?thesis by blast
qed

section \<open>Properties of the bound records in a grown tree\<close>










end
